theory Spec2Isabelle
  imports Complex_Main
begin

section \<open>Bounding boxes\<close>

text \<open>
  The source handles a bounding box as a sequence of four numbers, read by position
  (\<open>bbox[0]\<close> .. \<open>bbox[3]\<close>). Two layouts occur: corner form \<open>[x1, y1, x2, y2]\<close>
  and origin form \<open>[x, y, width, height]\<close>. A box is modelled as a 4-tuple of reals.
  \<open>augment_deepsort_bbox\<close> below is the function over the reals, without rounding; the
  section on double precision gives the same function with every operation rounded as the
  source's floats round it, for the property that depends on the rounding.
\<close>

type_synonym box = "real \<times> real \<times> real \<times> real"

text \<open>
  \<^verbatim>\<open>
  def augment_deepsort_bbox(bbox, frame_width, frame_height, width_ratio=1.5, height_ratio=1.2):
      x_center = bbox[0] + bbox[2] / 2
      y_center = bbox[1] + bbox[3] / 2
      x_augmented = max(0, x_center - bbox[2] * width_ratio / 2)
      y_augmented = max(0, y_center - bbox[3] * height_ratio / 2)
      width_augmented = min(bbox[2] * width_ratio, frame_width - x_augmented)
      height_augmented = min(bbox[3] * height_ratio, frame_height - y_augmented)
      return np.array([x_augmented, y_augmented, width_augmented, height_augmented])
  \<close>
\<close>

fun augment_deepsort_bbox :: "box \<Rightarrow> real \<Rightarrow> real \<Rightarrow> real \<Rightarrow> real \<Rightarrow> box" where
  "augment_deepsort_bbox (b0, b1, b2, b3) frame_width frame_height width_ratio height_ratio =
     (let x_center = b0 + b2 / 2;
          y_center = b1 + b3 / 2;
          x_augmented = max 0 (x_center - b2 * width_ratio / 2);
          y_augmented = max 0 (y_center - b3 * height_ratio / 2);
          width_augmented = min (b2 * width_ratio) (frame_width - x_augmented);
          height_augmented = min (b3 * height_ratio) (frame_height - y_augmented)
      in (x_augmented, y_augmented, width_augmented, height_augmented))"

text \<open>The call with the default keyword arguments \<open>width_ratio=1.5, height_ratio=1.2\<close>.\<close>

definition augment_deepsort_bbox_default :: "box \<Rightarrow> real \<Rightarrow> real \<Rightarrow> box" where
  "augment_deepsort_bbox_default bbox frame_width frame_height =
     augment_deepsort_bbox bbox frame_width frame_height (3 / 2) (6 / 5)"

section \<open>Double-precision arithmetic\<close>

text \<open>
  The source computes on Python and NumPy floats, which are IEEE 754 binary64 numbers:
  every operation returns the exact result rounded to the nearest number with a 53-bit
  significand, a tie going to the even significand. \<open>rne\<close> rounds a real to the nearest
  integer with ties to even; \<open>ilog2\<close> is the binary exponent of a positive number, found
  by doubling or halving it until it lies in \<open>[1, 2)\<close>; \<open>f64\<close> scales by the power of two
  that brings the significand into \<open>[2^52, 2^53)\<close>, rounds, and scales back. Overflow and
  subnormal numbers are left out: the exponent is unbounded, which changes nothing for
  pixel coordinates.
\<close>

definition rne :: "real \<Rightarrow> int" where
  "rne y =
     (let n = \<lfloor>y\<rfloor>; d = y - of_int n
      in if d < 1 / 2 then n else if 1 / 2 < d then n + 1 else if even n then n else n + 1)"

function ilog2 :: "real \<Rightarrow> int" where
  "ilog2 a =
     (if a \<le> 0 then 0
      else if a < 1 then ilog2 (a * 2) - 1
      else if 2 \<le> a then ilog2 (a / 2) + 1
      else 0)"
  by pat_completeness auto
termination
proof (relation "measure (\<lambda>a. nat \<bar>\<lfloor>log 2 a\<rfloor>\<bar>)")
  show "wf (measure (\<lambda>a. nat \<bar>\<lfloor>log 2 a\<rfloor>\<bar>))" by simp
next
  fix a :: real
  assume "\<not> a \<le> 0" and "a < 1"
  then have pos: "0 < a" by simp
  have l: "log 2 (a * 2) = log 2 a + 1" using pos by (simp add: log_mult)
  have f: "\<lfloor>log 2 (a * 2)\<rfloor> = \<lfloor>log 2 a\<rfloor> + 1" unfolding l by simp
  have "log 2 a < 0" using pos \<open>a < 1\<close> by simp
  then have "\<lfloor>log 2 a\<rfloor> < 0" by (simp add: floor_less_iff)
  then have "nat \<bar>\<lfloor>log 2 (a * 2)\<rfloor>\<bar> < nat \<bar>\<lfloor>log 2 a\<rfloor>\<bar>"
    unfolding f by linarith
  then show "(a * 2, a) \<in> measure (\<lambda>a. nat \<bar>\<lfloor>log 2 a\<rfloor>\<bar>)"
    unfolding in_measure .
next
  fix a :: real
  assume "\<not> a \<le> 0" and "\<not> a < 1" and "2 \<le> a"
  then have pos: "0 < a" by simp
  have l: "log 2 (a / 2) = log 2 a - 1" using pos by (simp add: log_divide)
  have f: "\<lfloor>log 2 (a / 2)\<rfloor> = \<lfloor>log 2 a\<rfloor> - 1" unfolding l by simp
  have "1 \<le> log 2 a" using pos \<open>2 \<le> a\<close> by (subst le_log_iff) simp_all
  then have "1 \<le> \<lfloor>log 2 a\<rfloor>" by (simp add: le_floor_iff)
  then have "nat \<bar>\<lfloor>log 2 (a / 2)\<rfloor>\<bar> < nat \<bar>\<lfloor>log 2 a\<rfloor>\<bar>"
    unfolding f by linarith
  then show "(a / 2, a) \<in> measure (\<lambda>a. nat \<bar>\<lfloor>log 2 a\<rfloor>\<bar>)"
    unfolding in_measure .
qed

declare ilog2.simps [simp del]

definition f64 :: "real \<Rightarrow> real" where
  "f64 z =
     (if z = 0 then 0
      else (let e = ilog2 \<bar>z\<bar>; q = 2 powi (e - 52)
            in of_int (rne (z / q)) * q))"

text \<open>
  \<open>augment_deepsort_bbox\<close> as the interpreter evaluates it: each \<open>+\<close>, \<open>-\<close>, \<open>*\<close> and
  \<open>/\<close> of the source is followed by one rounding; \<open>max\<close> and \<open>min\<close> compare and return one of
  their arguments. The default \<open>height_ratio\<close> is the float literal \<open>1.2\<close>, that is
  \<open>f64 (6 / 5)\<close>; \<open>1.5\<close> is \<open>3 / 2\<close> exactly.
\<close>

fun augment_deepsort_bbox_f64 :: "box \<Rightarrow> real \<Rightarrow> real \<Rightarrow> real \<Rightarrow> real \<Rightarrow> box" where
  "augment_deepsort_bbox_f64 (b0, b1, b2, b3) frame_width frame_height width_ratio height_ratio =
     (let x_center = f64 (b0 + f64 (b2 / 2));
          y_center = f64 (b1 + f64 (b3 / 2));
          x_augmented = max 0 (f64 (x_center - f64 (f64 (b2 * width_ratio) / 2)));
          y_augmented = max 0 (f64 (y_center - f64 (f64 (b3 * height_ratio) / 2)));
          width_augmented = min (f64 (b2 * width_ratio)) (f64 (frame_width - x_augmented));
          height_augmented = min (f64 (b3 * height_ratio)) (f64 (frame_height - y_augmented))
      in (x_augmented, y_augmented, width_augmented, height_augmented))"

text \<open>
  The second argument of \<open>max\<close> in the lines for \<open>x_augmented\<close> and \<open>y_augmented\<close>: the
  left (top) edge of the scaled box as the source computes it, before clamping.
\<close>

definition origin_f64 :: "real \<Rightarrow> real \<Rightarrow> real \<Rightarrow> real" where
  "origin_f64 a len ratio = f64 (f64 (a + f64 (len / 2)) - f64 (f64 (len * ratio) / 2))"

section \<open>Python values used by the pipeline\<close>

text \<open>The exceptions the modelled code can raise.\<close>

datatype py_error = AssertionError string | ZeroDivisionError | KeyError | AttributeError

text \<open>
  A video frame is an image array. The code reads \<open>shape[0]\<close> (rows, the frame height)
  and \<open>shape[1]\<close> (columns, the frame width); the image data is what the detector looks
  at and is kept abstract.
\<close>

record frame =
  shape0 :: nat
  shape1 :: nat
  pixels :: "nat list"

text \<open>
  A Python \<open>dict\<close> keeps its keys in insertion order, and \<open>transform_playerBoxes_to_list\<close>
  depends on that order, so a dict is an association list: \<open>k in d\<close> is
  \<open>map_of d k \<noteq> None\<close>, \<open>d[k]\<close> is \<open>map_of d k\<close> (\<open>KeyError\<close> on \<open>None\<close>),
  \<open>list(d.keys())\<close> is \<open>map fst d\<close>, and \<open>d[k] = v\<close> is \<open>dict_set\<close>: an existing key
  keeps its place, a new key goes to the end.
\<close>

type_synonym ('k, 'v) dict = "('k \<times> 'v) list"

fun dict_set :: "('k, 'v) dict \<Rightarrow> 'k \<Rightarrow> 'v \<Rightarrow> ('k, 'v) dict" where
  "dict_set [] k v = [(k, v)]"
| "dict_set ((k', v') # d) k v =
     (if k' = k then (k, v) # d else (k', v') # dict_set d k v)"

text \<open>A loop that appends one computed element per item and stops at the first raise.\<close>

fun map_result :: "('a \<Rightarrow> 'e + 'b) \<Rightarrow> 'a list \<Rightarrow> 'e + 'b list" where
  "map_result f [] = Inr []"
| "map_result f (x # xs) =
     (case f x of
        Inl e \<Rightarrow> Inl e
      | Inr y \<Rightarrow> (case map_result f xs of Inl e \<Rightarrow> Inl e | Inr ys \<Rightarrow> Inr (y # ys)))"

section \<open>Per-frame list of player boxes\<close>

text \<open>
  \<^verbatim>\<open>
  def transform_playerBoxes_to_list(videoFrames, playerBoxes):
      list_of_bbox = []
      player_ids = list(playerBoxes.keys())
      for i in range(len(videoFrames)):
          bboxes = []
          for id in player_ids:
              bbox_dict = playerBoxes[id]
              if i not in bbox_dict:
                  bboxes.append([0, 0, 0, 0])
              else:
                  bbox = list(bbox_dict[i])
                  bbox = [bbox[0], bbox[1], 1.5 * (bbox[2]-bbox[0]), 1.1 * (bbox[3]-bbox[1])]
                  bbox = augment_deepsort_bbox(bbox, videoFrames[i].shape[1], videoFrames[i].shape[0])
                  bboxes.append(list(bbox))
          list_of_bbox.append(np.array(bboxes))
      return list_of_bbox
  \<close>
  \<open>playerBoxes\<close> maps a player identity to a dict from frame index to a corner-form box.
  \<open>augmented_row\<close> is the \<open>else\<close> branch, \<open>player_bbox_at\<close> the body of the inner
  loop for frame \<open>i\<close> and player \<open>pid\<close> (the source's \<open>id\<close>).
\<close>

fun augmented_row :: "frame \<Rightarrow> box \<Rightarrow> box" where
  "augmented_row fr (b0, b1, b2, b3) =
     (let bbox = (b0, b1, 3 / 2 * (b2 - b0), 11 / 10 * (b3 - b1))
      in augment_deepsort_bbox_default bbox (real (shape1 fr)) (real (shape0 fr)))"

definition player_bbox_at ::
  "frame list \<Rightarrow> ('k, (int, box) dict) dict \<Rightarrow> nat \<Rightarrow> 'k \<Rightarrow> py_error + box" where
  "player_bbox_at videoFrames playerBoxes i pid =
     (case map_of playerBoxes pid of
        None \<Rightarrow> Inl KeyError
      | Some bbox_dict \<Rightarrow>
          (case map_of bbox_dict (int i) of
             None \<Rightarrow> Inr (0, 0, 0, 0)
           | Some bbox \<Rightarrow> Inr (augmented_row (videoFrames ! i) bbox)))"

definition transform_playerBoxes_to_list ::
  "frame list \<Rightarrow> ('k, (int, box) dict) dict \<Rightarrow> py_error + box list list" where
  "transform_playerBoxes_to_list videoFrames playerBoxes =
     (let player_ids = map fst playerBoxes
      in map_result
           (\<lambda>i. map_result (player_bbox_at videoFrames playerBoxes i) player_ids)
           [0..<length videoFrames])"

section \<open>Detections and the tracker interface\<close>

text \<open>
  The detector returns one row \<open>x1 y1 x2 y2 conf cls\<close> per object (\<open>results.xyxy[0]\<close>,
  a tensor of floats). The detector itself is an external collaborator: a function from
  the frame to its rows.
\<close>

record row6 =
  det_x1 :: real
  det_y1 :: real
  det_x2 :: real
  det_y2 :: real
  det_conf :: real
  det_cls :: real

type_synonym detector = "frame \<Rightarrow> row6 list"

text \<open>
  Modelled from the spec: \<open>xyxy2xywh\<close> is imported from \<open>yolov5.utils.general\<close>, which
  is not among the sources. The spec gives a detection's box as (center-x, center-y,
  width, height); the conversion from corner form is the one that yields these.
\<close>

fun xyxy2xywh :: "box \<Rightarrow> box" where
  "xyxy2xywh (a1, b1, a2, b2) = ((a1 + a2) / 2, (b1 + b2) / 2, a2 - a1, b2 - b1)"

text \<open>
  \<open>deepsort.update(bbox_xywh, confs, im0)\<close> belongs to the \<open>deep_sort\<close> package, which is
  not among the sources. For the pipeline it is a parameter: a function from the tracker's
  state and the three arguments to the output rows \<open>(x1, y1, x2, y2, track_id)\<close> and the
  new tracker state.
\<close>

type_synonym out_row = "box \<times> nat"

type_synonym 'trk tracker_update =
  "'trk \<Rightarrow> box list \<Rightarrow> real list \<Rightarrow> frame \<Rightarrow> out_row list \<times> 'trk"

section \<open>The video tracker object\<close>

text \<open>The parsed command line, restricted to the options the modelled code reads or declares.\<close>

record args =
  cam :: int
  input_path :: string
  save_path :: string
  save_txt :: string
  frame_interval :: int
  classes :: "int list"

text \<open>
  The outside world as \<open>__enter__\<close> sees it: \<open>os.path.isfile\<close>, the video a path opens
  to (\<open>None\<close> when OpenCV cannot open it), and the stream of the camera device
  (\<open>None\<close> when the device cannot be opened).
\<close>

record env =
  isfile :: "string \<Rightarrow> bool"
  video_at :: "string \<Rightarrow> frame list option"
  camera :: "frame list option"

text \<open>
  The two effects whose order matters: taking a frame from the capture, and invoking
  \<open>deepsort.update\<close> with its three arguments.
\<close>

datatype event = Grabbed frame | Updated "box list" "real list" frame

text \<open>
  The fields of \<open>self\<close>. \<open>vdo\<close> is the capture: \<open>None\<close> while not opened, otherwise the
  frames not yet grabbed. \<open>deepsort\<close> is the tracker object, whose state only
  \<open>deepsort.update\<close> changes. \<open>has_writer\<close> says whether the attribute \<open>self.writer\<close>
  has been assigned. Three fields are bookkeeping for the properties below and have no
  effect on the computation: \<open>grabbed\<close> counts the frames taken from the capture,
  \<open>calls\<close> records the arguments \<open>(bbox_xywh, confs)\<close> of every invocation of
  \<open>deepsort.update\<close>, oldest first, and \<open>events\<close> is the trace of both effects in the
  order in which they happen.
\<close>

record 'trk video_tracker =
  vt_args :: args
  deepsort :: 'trk
  vdo :: "frame list option"
  im_width :: nat
  im_height :: nat
  has_writer :: bool
  grabbed :: nat
  calls :: "(box list \<times> real list) list"
  events :: "event list"

text \<open>
  \<open>__init__\<close>, as far as the capture is concerned: a camera index other than \<open>-1\<close> opens
  the device, otherwise the capture is created unopened. Loading the configuration and
  building the tracker and the detector are taken as done; their results are the
  arguments.
\<close>

definition init :: "env \<Rightarrow> args \<Rightarrow> 'trk \<Rightarrow> 'trk video_tracker" where
  "init e a trk0 =
     \<lparr>vt_args = a, deepsort = trk0,
      vdo = (if cam a \<noteq> -1 then camera e else None),
      im_width = 0, im_height = 0, has_writer = False, grabbed = 0, calls = [], events = []\<rparr>"

text \<open>The width and height OpenCV reports for a capture: 0 when it is not opened.\<close>

fun cap_width :: "frame list option \<Rightarrow> nat" where
  "cap_width (Some (f # fs)) = shape1 f"
| "cap_width _ = 0"

fun cap_height :: "frame list option \<Rightarrow> nat" where
  "cap_height (Some (f # fs)) = shape0 f"
| "cap_height _ = 0"

text \<open>
  \<^verbatim>\<open>
  def __enter__(self):
      if self.args.cam != -1:
          ret, frame = self.vdo.read()
          assert ret, "Error: Camera error"
          self.im_width = int(self.vdo.get(cv2.CAP_PROP_FRAME_WIDTH))
          self.im_height = int(self.vdo.get(cv2.CAP_PROP_FRAME_HEIGHT))
      else:
          assert os.path.isfile(self.args.input_path), "Path error"
          self.vdo.open(self.args.input_path)
          self.im_width = int(self.vdo.get(cv2.CAP_PROP_FRAME_WIDTH))
          self.im_height = int(self.vdo.get(cv2.CAP_PROP_FRAME_HEIGHT))
          assert self.vdo.isOpened()
      if self.args.save_path:
          os.makedirs(self.args.save_path, exist_ok=True)
          ...
          self.writer = cv2.VideoWriter(...)
      if self.args.save_txt:
          os.makedirs(self.args.save_txt, exist_ok=True)
      return self
  \<close>
  A stateful method returns its outcome (the raised exception or the value) together
  with \<open>self\<close> as it is at that moment. Assertions are enabled (Python's default).
\<close>

definition enter :: "env \<Rightarrow> 'trk video_tracker \<Rightarrow> (py_error + unit) \<times> 'trk video_tracker" where
  "enter e self =
     (let opened =
        (if cam (vt_args self) \<noteq> -1 then
           (case vdo self of
              Some (frame # rest) \<Rightarrow>
                Inr (self\<lparr>vdo := Some rest, grabbed := grabbed self + 1,
                          events := events self @ [Grabbed frame],
                          im_width := shape1 frame, im_height := shape0 frame\<rparr>)
            | _ \<Rightarrow> Inl (AssertionError ''Error: Camera error'', self))
         else if \<not> isfile e (input_path (vt_args self)) then
           Inl (AssertionError ''Path error'', self)
         else
           (let v = video_at e (input_path (vt_args self));
                self1 = self\<lparr>vdo := v, im_width := cap_width v, im_height := cap_height v\<rparr>
            in if v = None then Inl (AssertionError [], self1) else Inr self1))
      in case opened of
           Inl (err, self1) \<Rightarrow> (Inl err, self1)
         | Inr self1 \<Rightarrow>
             (Inr (), if save_path (vt_args self1) \<noteq> [] then self1\<lparr>has_writer := True\<rparr> else self1))"

text \<open>
  \<^verbatim>\<open>
  def __exit__(self, exc_type, exc_value, exc_traceback):
      self.vdo.release()
      self.writer.release()
      if exc_type:
          print(exc_type, exc_value, exc_traceback)
  \<close>
  \<open>self.writer\<close> exists only when \<open>save_path\<close> was not empty.
\<close>

definition exit :: "'trk video_tracker \<Rightarrow> (py_error + unit) \<times> 'trk video_tracker" where
  "exit self =
     (let self1 = self\<lparr>vdo := None\<rparr>
      in if has_writer self1 then (Inr (), self1) else (Inl AttributeError, self1))"

section \<open>Tracking one image\<close>

text \<open>
  \<^verbatim>\<open>
  def image_track(self, im0):
      ...
      results = self.detector(im0)
      res = results.xyxy[0]
      # Apply NMS and filter object other than person (cls:0)
      # pred = non_max_suppression(res.unsqueeze(0), self.args.conf_thres, self.args.iou_thres,
      #                            classes=self.args.classes, agnostic=self.args.agnostic_nms)
      pred = res[res[:, -1] == 0].unsqueeze(0)
      det = pred[0]
      if det is not None and len(det):
          ...
          bbox_xywh = xyxy2xywh(det[:, :4]).cpu()
          confs = det[:, 4:5].cpu()
          outputs = self.deepsort.update(bbox_xywh, confs, im0)
      else:
          outputs = torch.zeros((0, 5))
      return outputs, t2 - t1, t3 - t2
  \<close>
  The preprocessing of \<open>img\<close> (never passed on), the log string \<open>s\<close> (never read) and the
  two timings are left out. \<open>xyxy\<close> is the slice \<open>[:, :4]\<close> of one row.
\<close>

definition xyxy :: "row6 \<Rightarrow> box" where
  "xyxy r = (det_x1 r, det_y1 r, det_x2 r, det_y2 r)"

definition image_track ::
  "'trk tracker_update \<Rightarrow> detector \<Rightarrow> 'trk video_tracker \<Rightarrow> frame
     \<Rightarrow> out_row list \<times> 'trk video_tracker" where
  "image_track update detector self im0 =
     (let res = detector im0;
          det = filter (\<lambda>r. det_cls r = 0) res
      in if det \<noteq> [] then
           (let bbox_xywh = map (\<lambda>r. xyxy2xywh (xyxy r)) det;
                confs = map det_conf det;
                (outputs, trk) = update (deepsort self) bbox_xywh confs im0
            in (outputs, self\<lparr>deepsort := trk, calls := calls self @ [(bbox_xywh, confs)],
                              events := events self @ [Updated bbox_xywh confs im0]\<rparr>))
         else ([], self))"

text \<open>
  \<open>self\<close> after an invocation of \<open>deepsort.update\<close> on \<open>bbox_xywh\<close>, \<open>confs\<close> and \<open>im0\<close>
  that left the tracker \<open>trk\<close>: the tracker is replaced and the invocation is recorded;
  no other field changes. It is the second component of what the \<open>then\<close> branch of
  \<open>image_track\<close> returns, named for the statements below.
\<close>

definition self_after_update ::
  "'trk video_tracker \<Rightarrow> 'trk \<Rightarrow> box list \<Rightarrow> real list \<Rightarrow> frame \<Rightarrow> 'trk video_tracker" where
  "self_after_update self trk bbox_xywh confs im0 =
     self\<lparr>deepsort := trk, calls := calls self @ [(bbox_xywh, confs)],
          events := events self @ [Updated bbox_xywh confs im0]\<rparr>"

section \<open>The frame loop\<close>

text \<open>
  \<^verbatim>\<open>
  def run(self):
      idx_frame = 0
      videoFrames = []
      playerBoxes = {}
      frame_width = 0
      frame_height = 0
      while self.vdo.grab():
          _, img0 = self.vdo.retrieve()
          videoFrames.append(img0)
          frame_height = img0.shape[0]
          frame_width = img0.shape[1]
          if idx_frame % self.args.frame_interval == 0:
              outputs, yt, st = self.image_track(img0)
              ...
              for output in outputs:
                  bbox = output[0:4]
                  player_id = output[-1]
                  if player_id not in playerBoxes:
                      playerBoxes[player_id] = {}
                  playerBoxes[player_id][idx_frame] = bbox
          else:
              outputs = last_out
          idx_frame += 1
      playerBoxes_list = transform_playerBoxes_to_list(videoFrames, playerBoxes)
      ...
      return videoFrames, playerBoxes_list, frame_width, frame_height, colors, self.fps
  \<close>
  The timing lists and \<open>last_out\<close> never reach the result and are left out, as are the
  random \<open>colors\<close> and \<open>fps\<close>. \<open>record_output\<close> is the body of the loop over \<open>outputs\<close>:
  a new player gets an empty dict at the end of \<open>playerBoxes\<close>, then the box is stored
  under the frame index.
\<close>

definition record_output ::
  "nat \<Rightarrow> out_row \<Rightarrow> (nat, (int, box) dict) dict \<Rightarrow> (nat, (int, box) dict) dict" where
  "record_output idx_frame output playerBoxes =
     (let bbox = fst output; player_id = snd output
      in case map_of playerBoxes player_id of
           None \<Rightarrow> dict_set playerBoxes player_id (dict_set [] (int idx_frame) bbox)
         | Some bbox_dict \<Rightarrow>
             dict_set playerBoxes player_id (dict_set bbox_dict (int idx_frame) bbox))"

record 'trk run_state =
  self_of :: "'trk video_tracker"
  idx_frame :: nat
  videoFrames_of :: "frame list"
  playerBoxes_of :: "(nat, (int, box) dict) dict"
  frame_width_of :: nat
  frame_height_of :: nat

text \<open>
  The \<open>while\<close> loop, by recursion on the frames the capture still holds: \<open>grab\<close> succeeds
  as long as one is left. A zero \<open>frame_interval\<close> makes \<open>%\<close> raise in the first
  iteration.
\<close>

fun run_loop ::
  "'trk tracker_update \<Rightarrow> detector \<Rightarrow> frame list \<Rightarrow> 'trk run_state
     \<Rightarrow> (py_error + unit) \<times> 'trk run_state" where
  "run_loop update detector [] s = (Inr (), s\<lparr>self_of := (self_of s)\<lparr>vdo := Some []\<rparr>\<rparr>)"
| "run_loop update detector (img0 # rest) s =
     (let self1 = (self_of s)\<lparr>vdo := Some rest, grabbed := grabbed (self_of s) + 1,
                              events := events (self_of s) @ [Grabbed img0]\<rparr>;
          s1 = s\<lparr>self_of := self1, videoFrames_of := videoFrames_of s @ [img0],
                 frame_height_of := shape0 img0, frame_width_of := shape1 img0\<rparr>
      in if frame_interval (vt_args self1) = 0 then (Inl ZeroDivisionError, s1)
         else if int (idx_frame s1) mod frame_interval (vt_args self1) = 0 then
           (let (outputs, self2) = image_track update detector self1 img0;
                s2 = s1\<lparr>self_of := self2,
                        playerBoxes_of := fold (record_output (idx_frame s1)) outputs (playerBoxes_of s1)\<rparr>
            in run_loop update detector rest (s2\<lparr>idx_frame := idx_frame s2 + 1\<rparr>))
         else run_loop update detector rest (s1\<lparr>idx_frame := idx_frame s1 + 1\<rparr>))"

type_synonym run_result = "frame list \<times> box list list \<times> nat \<times> nat"

definition run ::
  "'trk tracker_update \<Rightarrow> detector \<Rightarrow> 'trk video_tracker
     \<Rightarrow> (py_error + run_result) \<times> 'trk video_tracker" where
  "run update detector self =
     (let s0 = \<lparr>self_of = self, idx_frame = 0, videoFrames_of = [], playerBoxes_of = [],
                frame_width_of = 0, frame_height_of = 0\<rparr>;
          (r, s) = run_loop update detector (case vdo self of None \<Rightarrow> [] | Some fs \<Rightarrow> fs) s0
      in case r of
           Inl err \<Rightarrow> (Inl err, self_of s)
         | Inr _ \<Rightarrow>
             (case transform_playerBoxes_to_list (videoFrames_of s) (playerBoxes_of s) of
                Inl err \<Rightarrow> (Inl err, self_of s)
              | Inr playerBoxes_list \<Rightarrow>
                  (Inr (videoFrames_of s, playerBoxes_list, frame_width_of s, frame_height_of s),
                   self_of s)))"

text \<open>
  \<^verbatim>\<open>
  with VideoTracker(args, yolo_detector) as vdo_trk:
      frames, playerBoxes, _, _, colors, fps = vdo_trk.run()
  \<close>
  When \<open>__enter__\<close> raises, neither the body nor \<open>__exit__\<close> runs. Otherwise \<open>__exit__\<close>
  runs after the body, whether the body raised or not; it does not swallow the body's
  exception, and an exception of its own replaces it.
\<close>

definition main ::
  "env \<Rightarrow> args \<Rightarrow> 'trk \<Rightarrow> 'trk tracker_update \<Rightarrow> detector
     \<Rightarrow> (py_error + run_result) \<times> 'trk video_tracker" where
  "main e a trk0 update detector =
     (case enter e (init e a trk0) of
        (Inl err, self1) \<Rightarrow> (Inl err, self1)
      | (Inr _, self1) \<Rightarrow>
          (let (r, self2) = run update detector self1;
               (x, self3) = exit self2
           in case x of Inl err \<Rightarrow> (Inl err, self3) | Inr _ \<Rightarrow> (r, self3)))"

text \<open>
  What one tracked frame hands to \<open>deepsort.update\<close>, and which grabbed frames are
  tracked: those whose index is a multiple of \<open>frame_interval\<close> and whose detector output
  has a row of class 0. Both restate parts of \<open>image_track\<close> and \<open>run_loop\<close> for the
  statements below.
\<close>

definition update_args :: "detector \<Rightarrow> frame \<Rightarrow> box list \<times> real list" where
  "update_args detector im0 =
     (let det = filter (\<lambda>r. det_cls r = 0) (detector im0)
      in (map (\<lambda>r. xyxy2xywh (xyxy r)) det, map det_conf det))"

definition tracked_frame :: "int \<Rightarrow> detector \<Rightarrow> nat \<times> frame \<Rightarrow> bool" where
  "tracked_frame fi detector p \<longleftrightarrow>
     int (fst p) mod fi = 0 \<and> filter (\<lambda>r. det_cls r = 0) (detector (snd p)) \<noteq> []"

text \<open>
  The effects of one iteration of the loop on the frame \<open>snd p\<close> with index \<open>fst p\<close>: the
  frame is grabbed, and then, when it is tracked, \<open>deepsort.update\<close> is invoked on its
  boxes and confidences. \<open>track_step\<close> is that invocation's effect on the tracker.
\<close>

definition frame_events :: "int \<Rightarrow> detector \<Rightarrow> nat \<times> frame \<Rightarrow> event list" where
  "frame_events fi detector p =
     Grabbed (snd p) #
       (if tracked_frame fi detector p
        then [Updated (fst (update_args detector (snd p))) (snd (update_args detector (snd p))) (snd p)]
        else [])"

definition track_step :: "'trk tracker_update \<Rightarrow> detector \<Rightarrow> nat \<times> frame \<Rightarrow> 'trk \<Rightarrow> 'trk" where
  "track_step update detector p trk =
     snd (update trk (fst (update_args detector (snd p))) (snd (update_args detector (snd p)))
            (snd p))"

section \<open>The tracker core\<close>

text \<open>
  The \<open>deep_sort\<close> package (the tracker behind \<open>build_tracker\<close> and \<open>deepsort.update\<close>)
  is not among the sources. The definitions of this section are modelled from the spec,
  sections 3 and 4.3. The numeric parts (the motion filter, the cost matrix, the
  assignment solver, the appearance embedding) stay parameters: any functions may be
  supplied for them.
\<close>

text \<open>Modelled from the spec: the lifecycle status of a track, "one of tentative, confirmed, deleted".\<close>

datatype track_status = Tentative | Confirmed | Deleted

text \<open>
  Modelled from the spec: the track of section 3, with its identity, motion state (kept as
  the implied box \<open>(cx, cy, w, h)\<close>), lifecycle status, hit streak and time-since-update.
  The appearance memory lives in the assignment engine's parameter.
\<close>

record track =
  track_id :: nat
  motion :: box
  status :: track_status
  hit_streak :: nat
  time_since_update :: nat

text \<open>
  Modelled from the spec: the options \<open>max_age\<close> and \<open>min_hits\<close> of section 6, and the
  strict-tentative policy of section 4.3 ("tentative also transitions directly to deleted
  on a single miss if a strict-tentative policy is configured").
\<close>

record tracker_config =
  max_age :: nat
  min_hits :: nat
  strict_tentative :: bool

text \<open>
  Modelled from the spec: the collaborators of the orchestrator. \<open>predict\<close> and
  \<open>correct\<close> are the track state model of section 4.1; \<open>assign\<close> is the cost and assignment
  engine of section 4.2, returning matched (track index, detection index) pairs,
  unmatched track indices and unmatched detection indices.
\<close>

record engine =
  predict :: "box \<Rightarrow> box"
  correct :: "box \<Rightarrow> box \<Rightarrow> box"
  assign :: "track list \<Rightarrow> box list \<Rightarrow> real list \<Rightarrow> frame
               \<Rightarrow> (nat \<times> nat) list \<times> nat list \<times> nat list"

text \<open>
  Modelled from the spec: the orchestrator's track table, in creation order, and the
  source of identities, "a monotonically increasing integer".
\<close>

record tracker =
  tracks :: "track list"
  next_id :: nat


text \<open>Modelled from the spec: step 1 of section 4.3, "call predict() on every live track".\<close>

definition predict_all :: "engine \<Rightarrow> track list \<Rightarrow> track list" where
  "predict_all eng ts = map (\<lambda>t. t\<lparr>motion := predict eng (motion t)\<rparr>) ts"

text \<open>
  Modelled from the spec: step 3 for one matched track: correct with the detection's box,
  increment the hit streak, reset time-since-update, promote to confirmed once the hit
  streak reaches \<open>min_hits\<close>.
\<close>

definition matched :: "tracker_config \<Rightarrow> engine \<Rightarrow> box \<Rightarrow> track \<Rightarrow> track" where
  "matched cfg eng d t =
     (let h = hit_streak t + 1
      in t\<lparr>motion := correct eng (motion t) d, hit_streak := h, time_since_update := 0,
           status := (if status t = Tentative \<and> min_hits cfg \<le> h then Confirmed else status t)\<rparr>)"

text \<open>
  Modelled from the spec: step 4 for one unmatched track: increment time-since-update and
  mark deleted when it exceeds \<open>max_age\<close>, or at once for a tentative track under the
  strict policy. The hit streak counts matches "since last miss", so a miss resets it.
\<close>

definition missed :: "tracker_config \<Rightarrow> track \<Rightarrow> track" where
  "missed cfg t =
     (let k = time_since_update t + 1
      in t\<lparr>hit_streak := 0, time_since_update := k,
           status := (if max_age cfg < k \<or> (strict_tentative cfg \<and> status t = Tentative)
                      then Deleted else status t)\<rparr>)"

text \<open>
  Modelled from the spec: steps 3 and 4 at one index of the table. An index the engine
  returns outside the table or the detections changes nothing.
\<close>

definition apply_match ::
  "tracker_config \<Rightarrow> engine \<Rightarrow> box list \<Rightarrow> nat \<times> nat \<Rightarrow> track list \<Rightarrow> track list" where
  "apply_match cfg eng dets m ts =
     (if fst m < length ts \<and> snd m < length dets
      then ts[fst m := matched cfg eng (dets ! snd m) (ts ! fst m)] else ts)"

definition apply_miss :: "tracker_config \<Rightarrow> nat \<Rightarrow> track list \<Rightarrow> track list" where
  "apply_miss cfg ti ts = (if ti < length ts then ts[ti := missed cfg (ts ! ti)] else ts)"

text \<open>
  Modelled from the spec: step 5, "for each unmatched detection: spawn a new tentative
  track, seeded with that detection's box"; the new track takes the next identity. In the
  spec's first scenario a track created in frame 1 is confirmed in frame 3 with
  \<open>min_hits = 3\<close>, so the creating detection counts as the first hit.
\<close>

definition spawn :: "box list \<Rightarrow> nat \<Rightarrow> tracker \<Rightarrow> tracker" where
  "spawn dets di trk =
     (if di < length dets then
        trk\<lparr>tracks := tracks trk @
               [\<lparr>track_id = next_id trk, motion = dets ! di, status = Tentative,
                 hit_streak = 1, time_since_update = 0\<rparr>],
            next_id := next_id trk + 1\<rparr>
      else trk)"

text \<open>
  Modelled from the spec: step 7, the snapshot of the confirmed tracks as corner-form box
  and identity, in table order.
\<close>

fun to_corners :: "box \<Rightarrow> box" where
  "to_corners (cx, cy, w, h) = (cx - w / 2, cy - h / 2, cx + w / 2, cy + h / 2)"

definition emit :: "track list \<Rightarrow> out_row list" where
  "emit ts = map (\<lambda>t. (to_corners (motion t), track_id t)) (filter (\<lambda>t. status t = Confirmed) ts)"

text \<open>
  Modelled from the spec: the per-frame cycle of section 4.3 in its strict order: predict,
  assign, update the matched, age the unmatched, spawn, purge the deleted, emit.
\<close>

definition deepsort_update :: "tracker_config \<Rightarrow> engine \<Rightarrow> tracker tracker_update" where
  "deepsort_update cfg eng trk bbox_xywh confs im0 =
     (let ts1 = predict_all eng (tracks trk);
          (matches, unmatched_tracks, unmatched_dets) = assign eng ts1 bbox_xywh confs im0;
          ts2 = fold (apply_match cfg eng bbox_xywh) matches ts1;
          ts3 = fold (apply_miss cfg) unmatched_tracks ts2;
          trk4 = fold (spawn bbox_xywh) unmatched_dets (trk\<lparr>tracks := ts3\<rparr>);
          ts5 = filter (\<lambda>t. status t \<noteq> Deleted) (tracks trk4)
      in (emit ts5, trk4\<lparr>tracks := ts5\<rparr>))"






section \<open>Sample inputs\<close>

text \<open>Concrete detections, frames, collaborators and objects at which the theorems are instantiated.\<close>

definition sample_person :: row6 where
  "sample_person =
     \<lparr>det_x1 = 100, det_y1 = 100, det_x2 = 140, det_y2 = 180, det_conf = 9 / 10, det_cls = 0\<rparr>"

definition sample_car :: row6 where
  "sample_car =
     \<lparr>det_x1 = 300, det_y1 = 200, det_x2 = 400, det_y2 = 260, det_conf = 4 / 5, det_cls = 2\<rparr>"

definition sample_malformed :: row6 where
  "sample_malformed =
     \<lparr>det_x1 = 100, det_y1 = 100, det_x2 = 90, det_y2 = 140, det_conf = 3 / 2, det_cls = 0\<rparr>"

definition sample_frame :: "nat list \<Rightarrow> frame" where
  "sample_frame px = \<lparr>shape0 = 480, shape1 = 640, pixels = px\<rparr>"

definition sample_detector :: detector where
  "sample_detector im0 = (if pixels im0 = [] then [] else [sample_person, sample_car])"

definition idle_update :: "unit tracker_update" where
  "idle_update trk bbox_xywh confs im0 = ([], trk)"

text \<open>A tracker whose state is the list of the arguments it has received, oldest first.\<close>

definition recording_update :: "(box list \<times> real list \<times> frame) list tracker_update" where
  "recording_update trk bbox_xywh confs im0 = ([], trk @ [(bbox_xywh, confs, im0)])"

definition sample_args :: args where
  "sample_args =
     \<lparr>cam = -1, input_path = ''test2.mp4'', save_path = ''output/'', save_txt = ''output/predict/'',
      frame_interval = 1, classes = [0]\<rparr>"

definition sample_self :: "'trk \<Rightarrow> frame list \<Rightarrow> 'trk video_tracker" where
  "sample_self trk fs =
     \<lparr>vt_args = sample_args, deepsort = trk, vdo = Some fs, im_width = 640, im_height = 480,
      has_writer = True, grabbed = 0, calls = [], events = []\<rparr>"

definition sample_config :: tracker_config where
  "sample_config = \<lparr>max_age = 30, min_hits = 2, strict_tentative = True\<rparr>"

text \<open>An assignment that pairs the first track with the first detection, the second with the second, and so on.\<close>

definition pair_in_order ::
  "track list \<Rightarrow> box list \<Rightarrow> real list \<Rightarrow> frame \<Rightarrow> (nat \<times> nat) list \<times> nat list \<times> nat list" where
  "pair_in_order ts ds cs im0 =
     (let n = min (length ts) (length ds)
      in (zip [0..<n] [0..<n], [n..<length ts], [n..<length ds]))"

definition sample_engine :: engine where
  "sample_engine = \<lparr>predict = (\<lambda>b. b), correct = (\<lambda>b d. d), assign = pair_in_order\<rparr>"

definition mk_track :: "nat \<Rightarrow> box \<Rightarrow> track_status \<Rightarrow> nat \<Rightarrow> nat \<Rightarrow> track" where
  "mk_track i b s h k =
     \<lparr>track_id = i, motion = b, status = s, hit_streak = h, time_since_update = k\<rparr>"


definition sample_tracker :: tracker where
  "sample_tracker =
     \<lparr>tracks = [mk_track 1 (100, 100, 50, 50) Confirmed 3 0], next_id = 2\<rparr>"

text \<open>
  The value of the inner loop's body where the lookup of the player succeeds; used to
  state what the loops compute.
\<close>

definition row_of :: "frame list \<Rightarrow> ('k, (int, box) dict) dict \<Rightarrow> nat \<Rightarrow> 'k \<Rightarrow> box" where
  "row_of videoFrames playerBoxes i pid =
     (case map_of playerBoxes pid of
        None \<Rightarrow> (0, 0, 0, 0)
      | Some bbox_dict \<Rightarrow>
          (case map_of bbox_dict (int i) of
             None \<Rightarrow> (0, 0, 0, 0)
           | Some bbox \<Rightarrow> augmented_row (videoFrames ! i) bbox))"

section \<open>Properties of the box augmentation\<close>



section \<open>Properties of rounding\<close>

text \<open>Rounding to an integer moves a number by at most one half and keeps an integer; it is monotone against integer bounds.\<close>

lemma rne_error: "\<bar>of_int (rne y) - y\<bar> \<le> 1 / 2"
  unfolding rne_def Let_def by (auto; linarith)

lemma rne_of_int: "rne (of_int m) = m"
  by (simp add: rne_def)

text \<open>
  The binary exponent is the floor of the logarithm, so \<open>f64\<close> is the rounding to 53
  significant bits written with \<open>log\<close> and \<open>powr\<close>.
\<close>

lemma ilog2_floor_log: "0 < a \<Longrightarrow> ilog2 a = \<lfloor>log 2 a\<rfloor>"
proof (induction a rule: ilog2.induct)
  case (1 a)
  show ?case
  proof (cases "a < 1")
    case True
    have "log 2 (a * 2) = log 2 a + 1" using 1 by (simp add: log_mult)
    then show ?thesis
      using 1 True by (subst ilog2.simps) simp
  next
    case False
    show ?thesis
    proof (cases "2 \<le> a")
      case True
      have "log 2 (a / 2) = log 2 a - 1" using 1 by (simp add: log_divide)
      then show ?thesis
        using 1 True False by (subst ilog2.simps) simp
    next
      case small: False
      have "0 \<le> log 2 a" using False 1 by simp
      moreover have "log 2 a < 1" using small 1 by (subst log_less_iff) simp_all
      ultimately have "\<lfloor>log 2 a\<rfloor> = 0" by (subst floor_eq_iff) simp
      then show ?thesis
        using 1 False small by (subst ilog2.simps) simp
    qed
  qed
qed

lemma f64_unfold:
  "f64 z =
     (if z = 0 then 0
      else (let e = \<lfloor>log 2 \<bar>z\<bar>\<rfloor>; q = 2 powr (of_int e - 52)
            in of_int (rne (z / q)) * q))"
proof (cases "z = 0")
  case True
  then show ?thesis by (simp add: f64_def)
next
  case False
  have e: "ilog2 \<bar>z\<bar> = \<lfloor>log 2 \<bar>z\<bar>\<rfloor>" using False by (simp add: ilog2_floor_log)
  have "(2::real) powr (of_int (\<lfloor>log 2 \<bar>z\<bar>\<rfloor> - 52)) = 2 powi (\<lfloor>log 2 \<bar>z\<bar>\<rfloor> - 52)"
    by (rule powr_real_of_int') simp_all
  then have q: "(2::real) powi (\<lfloor>log 2 \<bar>z\<bar>\<rfloor> - 52) = 2 powr (of_int \<lfloor>log 2 \<bar>z\<bar>\<rfloor> - 52)"
    by simp
  show ?thesis
    using False by (simp add: f64_def Let_def e q)
qed

text \<open>One rounding has relative error at most \<open>2^-53\<close>.\<close>

lemma f64_error: "\<bar>f64 z - z\<bar> \<le> \<bar>z\<bar> / 2 ^ 53"
proof (cases "z = 0")
  case True
  then show ?thesis by (simp add: f64_unfold)
next
  case False
  define e where "e = \<lfloor>log 2 \<bar>z\<bar>\<rfloor>"
  define q :: real where "q = 2 powr (of_int e - 52)"
  have qpos: "0 < q" by (simp add: q_def)
  have f: "f64 z = of_int (rne (z / q)) * q"
    using False by (simp add: f64_unfold Let_def e_def q_def)
  have "of_int e \<le> log 2 \<bar>z\<bar>" by (simp add: e_def)
  then have lo: "2 powr (of_int e) \<le> \<bar>z\<bar>"
    using False by (simp add: le_log_iff)
  have q2: "q = 2 powr (of_int e) / 2 ^ 52"
    by (simp add: q_def powr_diff)
  have "f64 z - z = (of_int (rne (z / q)) - z / q) * q"
    using qpos by (simp add: f field_simps)
  then have "\<bar>f64 z - z\<bar> = \<bar>of_int (rne (z / q)) - z / q\<bar> * q"
    using qpos by (simp add: abs_mult)
  also have "\<dots> \<le> 1 / 2 * q"
    using rne_error [of "z / q"] qpos by (intro mult_right_mono) simp_all
  also have "\<dots> = 2 powr (of_int e) / 2 ^ 53" by (simp add: q2)
  also have "\<dots> \<le> \<bar>z\<bar> / 2 ^ 53" using lo by (simp add: divide_right_mono)
  finally show ?thesis .
qed

text \<open>
  The rounding at a number whose binary exponent is known: \<open>k\<close> is the shift that brings
  the significand into \<open>[2^52, 2^53)\<close>.
\<close>

lemma f64_eval:
  fixes k :: nat
  assumes "2 ^ 52 \<le> \<bar>z\<bar> * 2 ^ k" and "\<bar>z\<bar> * 2 ^ k < 2 ^ 53"
  shows "f64 z = of_int (rne (z * 2 ^ k)) / 2 ^ k"
proof -
  have nz: "z \<noteq> 0" using assms(1) by auto
  have zpos: "0 < \<bar>z\<bar>" using nz by simp
  have l: "log 2 (\<bar>z\<bar> * 2 ^ k) = log 2 \<bar>z\<bar> + real k"
    using zpos by (simp add: log_mult log_nat_power)
  have "52 \<le> log 2 (\<bar>z\<bar> * 2 ^ k)"
    using assms(1) zpos by (subst le_log_iff) simp_all
  moreover have "log 2 (\<bar>z\<bar> * 2 ^ k) < 53"
    using assms(2) zpos by (subst log_less_iff) simp_all
  ultimately have "52 - real k \<le> log 2 \<bar>z\<bar>" "log 2 \<bar>z\<bar> < 53 - real k"
    using l by simp_all
  then have e: "\<lfloor>log 2 \<bar>z\<bar>\<rfloor> = 52 - int k"
    by (subst floor_eq_iff) simp
  have q: "(2::real) powr (of_int (52 - int k) - 52) = 1 / 2 ^ k"
    by (simp add: powr_minus powr_realpow field_simps)
  have "f64 z = of_int (rne (z / (1 / 2 ^ k))) * (1 / 2 ^ k)"
    using nz unfolding f64_unfold Let_def e q by simp
  then show ?thesis by simp
qed

lemma rne_ge: "of_int a \<le> y \<Longrightarrow> a \<le> rne y"
  unfolding rne_def Let_def by (auto simp: le_floor_iff; linarith)

lemma rne_le: "y \<le> of_int b \<Longrightarrow> rne y \<le> b"
proof -
  assume yb: "y \<le> of_int b"
  then have fb: "\<lfloor>y\<rfloor> \<le> b" by (simp add: floor_le_iff; linarith)
  show ?thesis
  proof (cases "\<lfloor>y\<rfloor> = b")
    case True
    then have "y = of_int b" using yb of_int_floor_le [of y] by linarith
    then show ?thesis by (simp add: rne_of_int)
  next
    case False
    with fb have "\<lfloor>y\<rfloor> + 1 \<le> b" by simp
    then show ?thesis unfolding rne_def Let_def by auto
  qed
qed

text \<open>Halving commutes with rounding, and a rounded number is not changed by rounding again.\<close>

lemma f64_half: "f64 (z / 2) = f64 z / 2"
proof (cases "z = 0")
  case True
  then show ?thesis by (simp add: f64_unfold)
next
  case False
  have "log 2 \<bar>z / 2\<bar> = log 2 \<bar>z\<bar> - 1"
    using False by (simp add: log_divide)
  then have e: "\<lfloor>log 2 \<bar>z / 2\<bar>\<rfloor> = \<lfloor>log 2 \<bar>z\<bar>\<rfloor> - 1"
    by simp
  have q: "(2::real) powr (of_int (\<lfloor>log 2 \<bar>z\<bar>\<rfloor> - 1) - 52)
             = 2 powr (of_int \<lfloor>log 2 \<bar>z\<bar>\<rfloor> - 52) / 2"
    by (simp add: powr_diff)
  show ?thesis
    using False unfolding f64_unfold Let_def e q by simp
qed

lemma f64_scaled_int:
  fixes m :: int and c :: int
  assumes "2 ^ 52 \<le> \<bar>m\<bar>" and "\<bar>m\<bar> \<le> 2 ^ 53"
  shows "f64 (of_int m * 2 powr of_int c) = of_int m * 2 powr of_int c"
proof -
  let ?q = "(2::real) powr of_int c"
  have qpos: "0 < ?q" by simp
  have mnz: "m \<noteq> 0" using assms(1) by auto
  have nz: "of_int m * ?q \<noteq> 0" using mnz by simp
  have am: "\<bar>of_int m * ?q\<bar> = \<bar>real_of_int m\<bar> * ?q" by (simp add: abs_mult)
  have lg: "log 2 \<bar>of_int m * ?q\<bar> = log 2 \<bar>real_of_int m\<bar> + of_int c"
    using mnz by (simp add: am log_mult)
  have m52: "(2::real) ^ 52 \<le> \<bar>real_of_int m\<bar>"
    using assms(1) by (metis of_int_abs of_int_le_iff of_int_numeral of_int_power)
  have lo: "52 \<le> log 2 \<bar>real_of_int m\<bar>"
    using m52 mnz by (subst le_log_iff) simp_all
  show ?thesis
  proof (cases "\<bar>m\<bar> = 2 ^ 53")
    case False
    with assms(2) have "\<bar>m\<bar> < 2 ^ 53" by simp
    then have "\<bar>real_of_int m\<bar> < 2 ^ 53"
      by (metis of_int_abs of_int_less_iff of_int_numeral of_int_power)
    then have hi: "log 2 \<bar>real_of_int m\<bar> < 53"
      using mnz by (subst log_less_iff) simp_all
    have e: "\<lfloor>log 2 \<bar>of_int m * ?q\<bar>\<rfloor> = 52 + c"
      unfolding lg using lo hi by (subst floor_eq_iff) simp
    have "f64 (of_int m * ?q) = of_int (rne (of_int m * ?q / ?q)) * ?q"
      using nz unfolding f64_unfold Let_def e by simp
    then show ?thesis by (simp add: rne_of_int)
  next
    case True
    then have m53: "\<bar>real_of_int m\<bar> = 2 ^ 53"
      by (metis of_int_abs of_int_numeral of_int_power)
    have "log 2 ((2::real) ^ 53) = 53"
      by (subst log_nat_power) simp_all
    then have l53: "log 2 \<bar>real_of_int m\<bar> = 53"
      by (simp only: m53)
    have e: "\<lfloor>log 2 \<bar>of_int m * ?q\<bar>\<rfloor> = 53 + c"
      unfolding lg l53 by simp
    have q2: "(2::real) powr (of_int (53 + c) - 52) = 2 * ?q"
      by (simp add: powr_add)
    have "even \<bar>m\<bar>" unfolding True by simp
    then have "even m" by simp
    then obtain h where h: "m = 2 * h" by (elim evenE)
    have "f64 (of_int m * ?q) = of_int (rne (of_int m * ?q / (2 * ?q))) * (2 * ?q)"
      using nz unfolding f64_unfold Let_def e q2 by simp
    also have "of_int m * ?q / (2 * ?q) = of_int h" by (simp add: h)
    finally show ?thesis by (simp add: rne_of_int h)
  qed
qed

lemma f64_idem: "f64 (f64 z) = f64 z"
proof (cases "z = 0")
  case True
  then show ?thesis by (simp add: f64_unfold)
next
  case False
  define e where "e = \<lfloor>log 2 \<bar>z\<bar>\<rfloor>"
  define q :: real where "q = 2 powr (of_int (e - 52))"
  define m where "m = rne (z / q)"
  have qpos: "0 < q" by (simp add: q_def)
  have f: "f64 z = of_int m * q"
    using False by (simp add: f64_unfold Let_def e_def q_def m_def)
  have "of_int e \<le> log 2 \<bar>z\<bar>" by (simp add: e_def)
  then have lo: "2 powr (of_int e) \<le> \<bar>z\<bar>"
    using False by (simp add: le_log_iff)
  have "log 2 \<bar>z\<bar> < of_int e + 1" by (simp add: e_def)
  then have hi: "\<bar>z\<bar> < 2 powr (of_int e + 1)"
    using False by (simp add: log_less_iff)
  have q2: "q = 2 powr (of_int e) / 2 ^ 52"
    by (simp add: q_def powr_diff)
  have ylo: "2 ^ 52 \<le> \<bar>z\<bar> / q"
    using lo by (simp add: q2 field_simps)
  have yhi: "\<bar>z\<bar> / q < 2 ^ 53"
    using hi by (simp add: q2 powr_add field_simps)
  have b: "2 ^ 52 \<le> \<bar>m\<bar> \<and> \<bar>m\<bar> \<le> 2 ^ 53"
  proof (cases "0 < z")
    case True
    then have a: "\<bar>z\<bar> / q = z / q" by simp
    have "of_int (2 ^ 52) \<le> z / q" using ylo a by simp
    then have 1: "2 ^ 52 \<le> m" unfolding m_def by (rule rne_ge)
    have "z / q \<le> of_int (2 ^ 53)" using yhi a by simp
    then have 2: "m \<le> 2 ^ 53" unfolding m_def by (rule rne_le)
    from 1 2 show ?thesis by simp
  next
    case neg: False
    with False have "z < 0" by simp
    then have a: "\<bar>z\<bar> / q = - (z / q)" by simp
    have "z / q \<le> of_int (- (2 ^ 52))" using ylo a by simp
    then have 1: "m \<le> - (2 ^ 52)" unfolding m_def by (rule rne_le)
    have "of_int (- (2 ^ 53)) \<le> z / q" using yhi a by simp
    then have 2: "- (2 ^ 53) \<le> m" unfolding m_def by (rule rne_ge)
    from 1 2 show ?thesis by simp
  qed
  show ?thesis
    unfolding f q_def using f64_scaled_int [of m "e - 52"] b by simp
qed

text \<open>
  For a width or height that is a double, the origin before clamping is the rounded
  difference of the rounded centre and half the rounded size, and the centre of the box
  with that origin and size is off the exact centre by at most two roundings.
\<close>

lemma origin_f64_eq:
  assumes "f64 len = len"
  shows "origin_f64 a len ratio = f64 (f64 (a + len / 2) - f64 (len * ratio) / 2)"
  by (simp add: origin_f64_def f64_half f64_idem assms)

lemma origin_f64_center:
  assumes "f64 len = len"
  shows "\<bar>(origin_f64 a len ratio + f64 (len * ratio) / 2) - (a + len / 2)\<bar>
           \<le> (\<bar>f64 (a + len / 2) - f64 (len * ratio) / 2\<bar> + \<bar>a + len / 2\<bar>) / 2 ^ 53"
proof -
  let ?c = "f64 (a + len / 2)"
  let ?s = "f64 (len * ratio) / 2"
  have 1: "\<bar>f64 (?c - ?s) - (?c - ?s)\<bar> \<le> \<bar>?c - ?s\<bar> / 2 ^ 53" by (rule f64_error)
  have 2: "\<bar>?c - (a + len / 2)\<bar> \<le> \<bar>a + len / 2\<bar> / 2 ^ 53" by (rule f64_error)
  have "\<bar>(f64 (?c - ?s) + ?s) - (a + len / 2)\<bar>
          \<le> \<bar>f64 (?c - ?s) - (?c - ?s)\<bar> + \<bar>?c - (a + len / 2)\<bar>"
    by linarith
  also have "\<dots> \<le> \<bar>?c - ?s\<bar> / 2 ^ 53 + \<bar>a + len / 2\<bar> / 2 ^ 53"
    using 1 2 by (rule add_mono)
  finally show ?thesis
    by (simp add: origin_f64_eq [OF assms] add_divide_distrib)
qed

text \<open>
  The roundings that occur when the box \<open>[236, 346, 85.5, 259.6]\<close> is augmented in a frame
  of 1920 by 1080 pixels with the default ratios.
\<close>

lemma f64_sample_values:
  shows "f64 (1298 / 5) = 2283465748565197 / 8796093022208"
    and "f64 (6 / 5) = 5404319552844595 / 4503599627370496"
    and "f64 (171 / 4) = 171 / 4"
    and "f64 (1115 / 4) = 1115 / 4"
    and "f64 (2283465748565197 / 17592186044416) = 2283465748565197 / 17592186044416"
    and "f64 (8370362119933133 / 17592186044416) = 8370362119933133 / 17592186044416"
    and "f64 (513 / 4) = 513 / 4"
    and "f64 (513 / 8) = 513 / 8"
    and "f64 (1717 / 8) = 1717 / 8"
    and "f64 (12340578593221813847741166560215 / 39614081257132168796771975168)
           = 5480317796556473 / 17592186044416"
    and "f64 (5480317796556473 / 35184372088832) = 5480317796556473 / 35184372088832"
    and "f64 (11260406443309793 / 35184372088832) = 351887701353431 / 1099511627776"
    and "f64 (13643 / 8) = 13643 / 8"
    and "f64 (835584856644649 / 1099511627776) = 835584856644649 / 1099511627776"
    and "f64 (2283465748565197 / 8796093022208) = 2283465748565197 / 8796093022208"
    and "f64 (16740724239866265 / 35184372088832) = 2092590529983283 / 4398046511104"
proof -
  show "f64 (1298 / 5) = 2283465748565197 / 8796093022208"
    by (subst f64_eval [where k = 44]) (simp_all add: rne_def Let_def)
  show "f64 (6 / 5) = 5404319552844595 / 4503599627370496"
    by (subst f64_eval [where k = 52]) (simp_all add: rne_def Let_def)
  show "f64 (171 / 4) = 171 / 4"
    by (subst f64_eval [where k = 47]) (simp_all add: rne_def Let_def)
  show "f64 (1115 / 4) = 1115 / 4"
    by (subst f64_eval [where k = 44]) (simp_all add: rne_def Let_def)
  show "f64 (2283465748565197 / 17592186044416) = 2283465748565197 / 17592186044416"
    by (subst f64_eval [where k = 45]) (simp_all add: rne_def Let_def)
  show "f64 (8370362119933133 / 17592186044416) = 8370362119933133 / 17592186044416"
    by (subst f64_eval [where k = 44]) (simp_all add: rne_def Let_def)
  show "f64 (513 / 4) = 513 / 4"
    by (subst f64_eval [where k = 45]) (simp_all add: rne_def Let_def)
  show "f64 (513 / 8) = 513 / 8"
    by (subst f64_eval [where k = 46]) (simp_all add: rne_def Let_def)
  show "f64 (1717 / 8) = 1717 / 8"
    by (subst f64_eval [where k = 45]) (simp_all add: rne_def Let_def)
  show "f64 (12340578593221813847741166560215 / 39614081257132168796771975168)
          = 5480317796556473 / 17592186044416"
    by (subst f64_eval [where k = 44]) (simp_all add: rne_def Let_def)
  show "f64 (5480317796556473 / 35184372088832) = 5480317796556473 / 35184372088832"
    by (subst f64_eval [where k = 45]) (simp_all add: rne_def Let_def)
  show "f64 (11260406443309793 / 35184372088832) = 351887701353431 / 1099511627776"
    by (subst f64_eval [where k = 44]) (simp_all add: rne_def Let_def)
  show "f64 (13643 / 8) = 13643 / 8"
    by (subst f64_eval [where k = 42]) (simp_all add: rne_def Let_def)
  show "f64 (835584856644649 / 1099511627776) = 835584856644649 / 1099511627776"
    by (subst f64_eval [where k = 43]) (simp_all add: rne_def Let_def)
  show "f64 (2283465748565197 / 8796093022208) = 2283465748565197 / 8796093022208"
    by (subst f64_eval [where k = 44]) (simp_all add: rne_def Let_def)
  show "f64 (16740724239866265 / 35184372088832) = 2092590529983283 / 4398046511104"
    by (subst f64_eval [where k = 44]) (simp_all add: rne_def Let_def)
qed

lemma sample_origin_x: "origin_f64 236 (171 / 2) (3 / 2) = 1717 / 8"
  by (simp add: origin_f64_def f64_sample_values)

lemma sample_origin_y:
  "origin_f64 346 (2283465748565197 / 8796093022208) (5404319552844595 / 4503599627370496)
     = 351887701353431 / 1099511627776"
  by (simp add: origin_f64_def f64_sample_values)

lemma sample_augment_f64:
  "augment_deepsort_bbox_f64 (236, 346, 171 / 2, f64 (1298 / 5)) 1920 1080 (3 / 2) (f64 (6 / 5))
     = (1717 / 8, 351887701353431 / 1099511627776, 513 / 4, 5480317796556473 / 17592186044416)"
  by (simp add: Let_def f64_sample_values)

section \<open>The augmentation without clamping\<close>

text \<open>
  C10 as stated fails: for the box \<open>[236, 346, 85.5, 259.6]\<close> in a frame of 1920 by 1080
  pixels with the default ratios nothing is clamped (both origins are positive, both
  scaled sizes are below what the frame leaves), yet the returned box
  \<open>[214.625, 320.03999999999996, 128.25, 311.52000000000004]\<close> has its vertical centre
  at \<open>475.79999999999995\<close>, not at the input's \<open>475.8\<close>: the centres differ as exact
  numbers, and also when each is computed in doubles.
\<close>

theorem augment_deepsort_bbox_center_counterexample:
  "augment_deepsort_bbox_f64 (236, 346, 171 / 2, f64 (1298 / 5)) 1920 1080 (3 / 2) (f64 (6 / 5))
     = (1717 / 8, 351887701353431 / 1099511627776, 513 / 4, 5480317796556473 / 17592186044416)
   \<and> 0 \<le> origin_f64 236 (171 / 2) (3 / 2)
   \<and> 0 \<le> origin_f64 346 (f64 (1298 / 5)) (f64 (6 / 5))
   \<and> f64 (171 / 2 * (3 / 2)) \<le> f64 (1920 - origin_f64 236 (171 / 2) (3 / 2))
   \<and> f64 (f64 (1298 / 5) * f64 (6 / 5))
        \<le> f64 (1080 - origin_f64 346 (f64 (1298 / 5)) (f64 (6 / 5)))
   \<and> 351887701353431 / 1099511627776 + 5480317796556473 / 17592186044416 / 2
        \<noteq> 346 + f64 (1298 / 5) / 2
   \<and> f64 (351887701353431 / 1099511627776 + f64 (5480317796556473 / 17592186044416 / 2))
        \<noteq> f64 (346 + f64 (f64 (1298 / 5) / 2))"
  by (simp add: sample_augment_f64 f64_sample_values sample_origin_x sample_origin_y)

text \<open>
  C10, amended. When nothing is clamped and the width and height of the input are
  doubles, the returned width and height are the input's multiplied by \<open>width_ratio\<close> and
  \<open>height_ratio\<close>, rounded once; the returned origin is the rounded centre of the input
  minus half the returned size, rounded once; and the centre of the returned box agrees
  with the centre of the input up to rounding: on each axis it is off by at most \<open>2^-53\<close>
  times the sum of the magnitudes of the unrounded origin and of the input's centre.
\<close>

theorem augment_deepsort_bbox_f64_unclamped:
  assumes "f64 w = w" and "f64 h = h"
    and "0 \<le> origin_f64 x w width_ratio"
    and "0 \<le> origin_f64 y h height_ratio"
    and "f64 (w * width_ratio) \<le> f64 (frame_width - origin_f64 x w width_ratio)"
    and "f64 (h * height_ratio) \<le> f64 (frame_height - origin_f64 y h height_ratio)"
    and "augment_deepsort_bbox_f64 (x, y, w, h) frame_width frame_height width_ratio height_ratio
           = (x', y', w', h')"
  shows "w' = f64 (w * width_ratio) \<and> h' = f64 (h * height_ratio)
         \<and> x' = f64 (f64 (x + w / 2) - w' / 2) \<and> y' = f64 (f64 (y + h / 2) - h' / 2)
         \<and> \<bar>(x' + w' / 2) - (x + w / 2)\<bar>
              \<le> (\<bar>f64 (x + w / 2) - w' / 2\<bar> + \<bar>x + w / 2\<bar>) / 2 ^ 53
         \<and> \<bar>(y' + h' / 2) - (y + h / 2)\<bar>
              \<le> (\<bar>f64 (y + h / 2) - h' / 2\<bar> + \<bar>y + h / 2\<bar>) / 2 ^ 53"
proof -
  have xa: "max 0 (origin_f64 x w width_ratio) = origin_f64 x w width_ratio"
    using assms(3) by simp
  have ya: "max 0 (origin_f64 y h height_ratio) = origin_f64 y h height_ratio"
    using assms(4) by simp
  have wa: "min (f64 (w * width_ratio)) (f64 (frame_width - origin_f64 x w width_ratio))
              = f64 (w * width_ratio)"
    using assms(5) by simp
  have ha: "min (f64 (h * height_ratio)) (f64 (frame_height - origin_f64 y h height_ratio))
              = f64 (h * height_ratio)"
    using assms(6) by simp
  have "augment_deepsort_bbox_f64 (x, y, w, h) frame_width frame_height width_ratio height_ratio
          = (origin_f64 x w width_ratio, origin_f64 y h height_ratio,
             f64 (w * width_ratio), f64 (h * height_ratio))"
    unfolding augment_deepsort_bbox_f64.simps Let_def origin_f64_def [symmetric]
    by (simp only: xa ya wa ha)
  with assms(7) have r: "x' = origin_f64 x w width_ratio" "y' = origin_f64 y h height_ratio"
    "w' = f64 (w * width_ratio)" "h' = f64 (h * height_ratio)"
    by simp_all
  show ?thesis
    unfolding r
    using origin_f64_center [OF assms(1), of x width_ratio]
      origin_f64_center [OF assms(2), of y height_ratio]
      origin_f64_eq [OF assms(1), of x width_ratio]
      origin_f64_eq [OF assms(2), of y height_ratio]
    by simp
qed

theorem augment_deepsort_bbox_f64_unclamped_witness:
  "augment_deepsort_bbox_f64 (236, 346, 171 / 2, f64 (1298 / 5)) 1920 1080 (3 / 2) (f64 (6 / 5))
     = (1717 / 8, 351887701353431 / 1099511627776, 513 / 4, 5480317796556473 / 17592186044416)
   \<and> (513 / 4 :: real) = f64 (171 / 2 * (3 / 2))
   \<and> (5480317796556473 / 17592186044416 :: real) = f64 (f64 (1298 / 5) * f64 (6 / 5))
   \<and> (351887701353431 / 1099511627776 :: real)
       = f64 (f64 (346 + f64 (1298 / 5) / 2) - 5480317796556473 / 17592186044416 / 2)
   \<and> \<bar>(351887701353431 / 1099511627776 + 5480317796556473 / 17592186044416 / 2)
        - (346 + f64 (1298 / 5) / 2)\<bar>
       \<le> (\<bar>f64 (346 + f64 (1298 / 5) / 2) - 5480317796556473 / 17592186044416 / 2\<bar>
            + \<bar>346 + f64 (1298 / 5) / 2\<bar>) / 2 ^ 53"
proof -
  have w: "f64 (171 / 2) = 171 / 2"
    by (subst f64_eval [where k = 46]) (simp_all add: rne_def Let_def)
  have h: "f64 (f64 (1298 / 5)) = f64 (1298 / 5)" by (rule f64_idem)
  have 1: "0 \<le> origin_f64 236 (171 / 2) (3 / 2)"
    by (simp add: sample_origin_x)
  have 2: "0 \<le> origin_f64 346 (f64 (1298 / 5)) (f64 (6 / 5))"
    by (simp add: f64_sample_values sample_origin_y)
  have 3: "f64 (171 / 2 * (3 / 2)) \<le> f64 (1920 - origin_f64 236 (171 / 2) (3 / 2))"
    by (simp add: f64_sample_values sample_origin_x)
  have 4: "f64 (f64 (1298 / 5) * f64 (6 / 5))
             \<le> f64 (1080 - origin_f64 346 (f64 (1298 / 5)) (f64 (6 / 5)))"
    by (simp add: f64_sample_values sample_origin_y)
  from augment_deepsort_bbox_f64_unclamped [OF w h 1 2 3 4 sample_augment_f64]
  show ?thesis
    using sample_augment_f64 by simp
qed

section \<open>Properties of the per-frame list\<close>

text \<open>A loop whose body never raises returns the list of the body's values.\<close>

lemma map_result_total:
  "(\<And>x. x \<in> set xs \<Longrightarrow> f x = Inr (g x)) \<Longrightarrow> map_result f xs = Inr (map g xs)"
  by (induction xs) simp_all

text \<open>Every key of a dict is found in it, so the inner loop's lookup does not raise.\<close>

lemma map_of_key_found: "k \<in> fst ` set d \<Longrightarrow> \<exists>v. map_of d k = Some v"
  by (cases "map_of d k") (auto simp: map_of_eq_None_iff)

lemma player_bbox_at_key:
  "pid \<in> fst ` set playerBoxes \<Longrightarrow>
   player_bbox_at videoFrames playerBoxes i pid = Inr (row_of videoFrames playerBoxes i pid)"
  using map_of_key_found [of pid playerBoxes]
  by (auto simp: player_bbox_at_def row_of_def split: option.splits)

lemma transform_playerBoxes_to_list_eq:
  "transform_playerBoxes_to_list videoFrames playerBoxes =
     Inr (map (\<lambda>i. map (row_of videoFrames playerBoxes i) (map fst playerBoxes))
            [0..<length videoFrames])"
proof -
  have inner: "map_result (player_bbox_at videoFrames playerBoxes i) (map fst playerBoxes)
                 = Inr (map (row_of videoFrames playerBoxes i) (map fst playerBoxes))" for i
    by (rule map_result_total) (simp add: player_bbox_at_key)
  show ?thesis
    unfolding transform_playerBoxes_to_list_def Let_def
    by (rule map_result_total) (rule inner)
qed

text \<open>
  C8. \<open>transform_playerBoxes_to_list\<close> returns (it does not raise) a list with one entry
  per video frame; every entry has one row per key of \<open>playerBoxes\<close>, in key order: row
  \<open>j\<close> of entry \<open>i\<close> belongs to the \<open>j\<close>-th key. Where that player's dict has no box for
  frame index \<open>i\<close> the row is \<open>[0, 0, 0, 0]\<close>, and where it has one the row is that box
  after the two augmentations.
\<close>

theorem transform_playerBoxes_to_list_shape:
  "\<exists>r. transform_playerBoxes_to_list videoFrames playerBoxes = Inr r
       \<and> length r = length videoFrames
       \<and> (\<forall>i < length videoFrames.
             length (r ! i) = length playerBoxes
             \<and> (\<forall>j < length playerBoxes. \<forall>bbox_dict.
                   map_of playerBoxes (fst (playerBoxes ! j)) = Some bbox_dict \<longrightarrow>
                     (map_of bbox_dict (int i) = None \<longrightarrow> r ! i ! j = (0, 0, 0, 0))
                   \<and> (\<forall>bbox. map_of bbox_dict (int i) = Some bbox \<longrightarrow>
                          r ! i ! j = augmented_row (videoFrames ! i) bbox)))"
  by (simp add: transform_playerBoxes_to_list_eq row_of_def)

theorem transform_playerBoxes_to_list_shape_witness:
  "transform_playerBoxes_to_list
      [\<lparr>shape0 = 480, shape1 = 640, pixels = []\<rparr>, \<lparr>shape0 = 480, shape1 = 640, pixels = [1]\<rparr>]
      [(7::nat, [(0, (100, 100, 140, 150))]), (9, [(1, (10, 10, 20, 20))])]
    = Inr [[(85, 189 / 2, 90, 66), (0, 0, 0, 0)], [(0, 0, 0, 0), (25 / 4, 89 / 10, 45 / 2, 66 / 5)]]"
proof -
  let ?fs = "[\<lparr>shape0 = 480, shape1 = 640, pixels = []\<rparr>,
              \<lparr>shape0 = 480, shape1 = 640, pixels = [1]\<rparr>]"
  let ?pb = "[(7::nat, [(0::int, (100, 100, 140, 150) :: box)]), (9, [(1, (10, 10, 20, 20))])]"
  from transform_playerBoxes_to_list_shape [of ?fs ?pb]
  obtain r where r: "transform_playerBoxes_to_list ?fs ?pb = Inr r" and len: "length r = 2"
    and rows: "\<forall>i<2. length (r ! i) = 2
      \<and> (\<forall>j<2. \<forall>bbox_dict. map_of ?pb (fst (?pb ! j)) = Some bbox_dict \<longrightarrow>
            (map_of bbox_dict (int i) = None \<longrightarrow> r ! i ! j = (0, 0, 0, 0))
          \<and> (\<forall>bbox. map_of bbox_dict (int i) = Some bbox \<longrightarrow>
                 r ! i ! j = augmented_row (?fs ! i) bbox))"
    by auto
  have l0: "length (r ! 0) = 2" and l1: "length (r ! 1) = 2"
    using rows by auto
  have r00: "r ! 0 ! 0 = (85, 189 / 2, 90, 66)"
    using rows [rule_format, of 0, THEN conjunct2, rule_format, of 0 "[(0, (100, 100, 140, 150))]",
        THEN conjunct2, rule_format, of "(100, 100, 140, 150)"]
    by (simp add: augment_deepsort_bbox_default_def Let_def)
  have r01: "r ! 0 ! 1 = (0, 0, 0, 0)"
    using rows [rule_format, of 0, THEN conjunct2, rule_format, of 1 "[(1, (10, 10, 20, 20))]",
        THEN conjunct1]
    by simp
  have r10: "r ! 1 ! 0 = (0, 0, 0, 0)"
    using rows [rule_format, of 1, THEN conjunct2, rule_format, of 0 "[(0, (100, 100, 140, 150))]",
        THEN conjunct1]
    by simp
  have r11: "r ! 1 ! 1 = (25 / 4, 89 / 10, 45 / 2, 66 / 5)"
    using rows [rule_format, of 1, THEN conjunct2, rule_format, of 1 "[(1, (10, 10, 20, 20))]",
        THEN conjunct2, rule_format, of "(10, 10, 20, 20)"]
    by (simp add: augment_deepsort_bbox_default_def Let_def)
  have two: "xs = [xs ! 0, xs ! 1]" if "length xs = 2" for xs :: "'a list"
    using that by (cases xs; cases "tl xs") auto
  have "r = [r ! 0, r ! 1]" using two [OF len] .
  moreover have "r ! 0 = [r ! 0 ! 0, r ! 0 ! 1]" using two [OF l0] .
  moreover have "r ! 1 = [r ! 1 ! 0, r ! 1 ! 1]" using two [OF l1] .
  ultimately have "r = [[(85, 189 / 2, 90, 66), (0, 0, 0, 0)], [(0, 0, 0, 0), (25 / 4, 89 / 10, 45 / 2, 66 / 5)]]"
    using r00 r01 r10 r11 by simp
  with r show ?thesis by simp
qed

section \<open>Properties of tracking one image\<close>

lemmas sample_defs =
  sample_person_def sample_car_def sample_malformed_def sample_frame_def sample_detector_def
  idle_update_def recording_update_def sample_args_def sample_self_def

lemma tracked_frame_pair:
  "tracked_frame fi detector (i, f) \<longleftrightarrow>
     int i mod fi = 0 \<and> filter (\<lambda>r. det_cls r = 0) (detector f) \<noteq> []"
  by (simp add: tracked_frame_def)

lemma frame_events_pair:
  "frame_events fi detector (i, f) =
     Grabbed f #
       (if int i mod fi = 0 \<and> filter (\<lambda>r. det_cls r = 0) (detector f) \<noteq> []
        then [Updated (fst (update_args detector f)) (snd (update_args detector f)) f]
        else [])"
  by (simp add: frame_events_def tracked_frame_def)

lemma track_step_pair:
  "track_step update detector (i, f) trk =
     snd (update trk (fst (update_args detector f)) (snd (update_args detector f)) f)"
  by (simp add: track_step_def)

text \<open>
  \<open>image_track\<close> either returns at once, or invokes \<open>deepsort.update\<close> on what
  \<open>update_args\<close> gives and keeps the tracker that comes back.
\<close>

lemma image_track_eq:
  "image_track update detector self im0 =
     (if filter (\<lambda>r. det_cls r = 0) (detector im0) = [] then ([], self)
      else (fst (update (deepsort self) (fst (update_args detector im0))
                   (snd (update_args detector im0)) im0),
            self_after_update self
              (snd (update (deepsort self) (fst (update_args detector im0))
                      (snd (update_args detector im0)) im0))
              (fst (update_args detector im0)) (snd (update_args detector im0)) im0))"
  by (simp add: image_track_def self_after_update_def update_args_def Let_def split: prod.splits)

lemma image_track_calls:
  "calls (snd (image_track update detector self im0)) =
     calls self @ (if filter (\<lambda>r. det_cls r = 0) (detector im0) = [] then []
                   else [update_args detector im0])"
  by (simp add: image_track_eq self_after_update_def)

lemma image_track_events:
  "events (snd (image_track update detector self im0)) =
     events self @ (if filter (\<lambda>r. det_cls r = 0) (detector im0) = [] then []
                    else [Updated (fst (update_args detector im0))
                            (snd (update_args detector im0)) im0])"
  by (simp add: image_track_eq self_after_update_def)

lemma image_track_deepsort:
  "deepsort (snd (image_track update detector self im0)) =
     (if filter (\<lambda>r. det_cls r = 0) (detector im0) = [] then deepsort self
      else snd (update (deepsort self) (fst (update_args detector im0))
                  (snd (update_args detector im0)) im0))"
  by (simp add: image_track_eq self_after_update_def)

lemma image_track_untouched:
  "vt_args (snd (image_track update detector self im0)) = vt_args self"
  "grabbed (snd (image_track update detector self im0)) = grabbed self"
  by (simp_all add: image_track_eq self_after_update_def)

text \<open>
  C1. For a processed frame, what \<open>image_track\<close> hands to \<open>deepsort.update\<close> is exactly
  the rows of the detector's output whose class id is 0, in their order. When there is
  such a row, the rows returned and the tracker kept by \<open>image_track\<close> are the ones that
  \<open>deepsort.update\<close> gives on the tracker, the converted boxes and the confidences of
  these rows and the frame, and that one invocation is the only change to \<open>self\<close>
  (\<open>self_after_update\<close>); when there is none, nothing is invoked and \<open>self\<close> is unchanged. Every row passed has class
  id 0, and every row of class id 0 in the output is passed. The tracker is arbitrary, so
  the equation fixes the arguments of the invocation.
\<close>

theorem image_track_forwards_class0:
  "let passed = filter (\<lambda>r. det_cls r = 0) (detector im0);
       bbox_xywh = map (\<lambda>r. xyxy2xywh (xyxy r)) passed;
       confs = map det_conf passed
   in (passed \<noteq> [] \<longrightarrow>
         image_track update detector self im0 =
           (fst (update (deepsort self) bbox_xywh confs im0),
            self_after_update self (snd (update (deepsort self) bbox_xywh confs im0))
              bbox_xywh confs im0))
      \<and> (passed = [] \<longrightarrow> image_track update detector self im0 = ([], self))
      \<and> (\<forall>r \<in> set passed. det_cls r = 0)
      \<and> (\<forall>r \<in> set (detector im0). det_cls r = 0 \<longrightarrow> r \<in> set passed)"
  by (simp add: image_track_eq update_args_def Let_def)

theorem image_track_forwards_class0_witness:
  "image_track recording_update sample_detector (sample_self [] []) (sample_frame [1])
     = ([], (sample_self [([(120, 140, 40, 80)], [9 / 10], sample_frame [1])] [])
              \<lparr>calls := [([(120, 140, 40, 80)], [9 / 10])],
               events := [Updated [(120, 140, 40, 80)] [9 / 10] (sample_frame [1])]\<rparr>)"
  using image_track_forwards_class0
    [of sample_detector "sample_frame [1]" recording_update "sample_self [] []"]
  by (simp add: sample_defs self_after_update_def Let_def xyxy_def)

text \<open>
  C4 (evaluation at the failing input). With \<open>--classes 2\<close> on the command line and a
  detector output of one class-2 row and one class-0 row, \<open>image_track\<close> passes the class-0
  row to the tracker and drops the class-2 row: the option is never read.
\<close>

theorem image_track_ignores_classes:
  "calls (snd (image_track idle_update (\<lambda>im0. [sample_car, sample_person])
           ((sample_self () [])\<lparr>vt_args := sample_args\<lparr>classes := [2]\<rparr>\<rparr>) (sample_frame [1])))
     = [([(120, 140, 40, 80)], [9 / 10])]"
  by (simp add: image_track_def sample_defs Let_def xyxy_def)

text \<open>
  C5 as stated fails: a row of class 0 with negative width (\<open>x2 < x1\<close>) and confidence
  \<open>1.5\<close> is passed to \<open>deepsort.update\<close>, next to the well-formed row of the same frame:
  a tracker that records its arguments has received both.
\<close>

theorem image_track_malformed_counterexample:
  "deepsort (snd (image_track recording_update (\<lambda>im0. [sample_malformed, sample_person])
               (sample_self [] []) (sample_frame [1])))
     = [([(95, 120, -10, 40), (120, 140, 40, 80)], [3 / 2, 9 / 10], sample_frame [1])]"
  by (simp add: image_track_def sample_defs Let_def xyxy_def)

text \<open>
  C5, amended. The filter looks at the class id only: when the detector's output has a
  row of class 0, \<open>image_track\<close> invokes \<open>deepsort.update\<close> once, and the boxes and
  confidences of that invocation contain, as converted box and confidence, every row of
  class 0 in the output, whatever its width, height and confidence; the rows returned
  and the tracker kept are the ones this invocation gives.
\<close>

theorem image_track_passes_every_class0_row:
  assumes "r \<in> set (detector im0)" and "det_cls r = 0"
  shows "\<exists>bbox_xywh confs.
           image_track update detector self im0 =
             (fst (update (deepsort self) bbox_xywh confs im0),
              self_after_update self (snd (update (deepsort self) bbox_xywh confs im0))
                bbox_xywh confs im0)
           \<and> (\<forall>r' \<in> set (detector im0). det_cls r' = 0 \<longrightarrow>
                  (xyxy2xywh (xyxy r'), det_conf r') \<in> set (zip bbox_xywh confs))"
proof -
  let ?det = "filter (\<lambda>r. det_cls r = 0) (detector im0)"
  let ?b = "map (\<lambda>r. xyxy2xywh (xyxy r)) ?det"
  let ?c = "map det_conf ?det"
  from assms have "r \<in> set ?det" by simp
  then have ne: "?det \<noteq> []" by (auto simp: filter_empty_conv)
  have z: "(xyxy2xywh (xyxy r'), det_conf r') \<in> set (zip ?b ?c)"
    if "r' \<in> set (detector im0)" and "det_cls r' = 0" for r'
  proof -
    from that have "r' \<in> set ?det" by simp
    then show ?thesis by (auto simp: zip_map_map zip_same)
  qed
  have e: "image_track update detector self im0 =
             (fst (update (deepsort self) ?b ?c im0),
              self_after_update self (snd (update (deepsort self) ?b ?c im0)) ?b ?c im0)"
    using ne by (simp add: image_track_eq update_args_def Let_def)
  from e z show ?thesis by blast
qed

theorem image_track_passes_every_class0_row_witness:
  "\<exists>bbox_xywh confs.
      deepsort (snd (image_track recording_update (\<lambda>im0. [sample_malformed, sample_person])
                       (sample_self [] []) (sample_frame [1])))
        = [(bbox_xywh, confs, sample_frame [1])]
      \<and> ((95, 120, -10, 40), 3 / 2) \<in> set (zip bbox_xywh confs)
      \<and> ((120, 140, 40, 80), 9 / 10) \<in> set (zip bbox_xywh confs)"
proof -
  let ?d = "\<lambda>im0 :: frame. [sample_malformed, sample_person]"
  have m: "sample_malformed \<in> set (?d (sample_frame [1]))" by simp
  have c: "det_cls sample_malformed = 0" by (simp add: sample_malformed_def)
  from image_track_passes_every_class0_row
    [of sample_malformed ?d "sample_frame [1]", OF m c, of recording_update "sample_self [] []"]
  obtain bbox_xywh confs where
    e: "image_track recording_update ?d (sample_self [] []) (sample_frame [1]) =
          (fst (recording_update (deepsort (sample_self [] [])) bbox_xywh confs (sample_frame [1])),
           self_after_update (sample_self [] [])
             (snd (recording_update (deepsort (sample_self [] [])) bbox_xywh confs
                     (sample_frame [1])))
             bbox_xywh confs (sample_frame [1]))"
    and z: "\<forall>r' \<in> set (?d (sample_frame [1])). det_cls r' = 0 \<longrightarrow>
              (xyxy2xywh (xyxy r'), det_conf r') \<in> set (zip bbox_xywh confs)"
    by blast
  have 1: "deepsort (snd (image_track recording_update ?d (sample_self [] []) (sample_frame [1])))
             = [(bbox_xywh, confs, sample_frame [1])]"
    unfolding e by (simp add: recording_update_def sample_self_def self_after_update_def)
  have 2: "((95, 120, -10, 40), 3 / 2) \<in> set (zip bbox_xywh confs)"
    using z [rule_format, of sample_malformed]
    by (simp add: sample_malformed_def xyxy_def)
  have 3: "((120, 140, 40, 80), 9 / 10) \<in> set (zip bbox_xywh confs)"
    using z [rule_format, of sample_person]
    by (simp add: sample_person_def xyxy_def)
  from 1 2 3 show ?thesis by blast
qed

section \<open>Properties of the setup\<close>

text \<open>
  C7. In file-input mode (\<open>cam = -1\<close>), when the input path is not an existing file or the
  video cannot be opened, the pipeline ends with an \<open>AssertionError\<close> raised by
  \<open>__enter__\<close>: no frame has been grabbed, \<open>deepsort.update\<close> has not been invoked and the
  tracker is as it was built.
\<close>

theorem main_aborts_on_missing_input:
  assumes "cam a = -1"
    and "\<not> isfile e (input_path a) \<or> video_at e (input_path a) = None"
  shows "\<exists>msg self'. main e a trk0 update detector = (Inl (AssertionError msg), self')
           \<and> grabbed self' = 0 \<and> calls self' = [] \<and> deepsort self' = trk0"
  using assms by (auto simp: main_def enter_def init_def Let_def)

theorem main_aborts_on_missing_input_witness:
  "main \<lparr>isfile = (\<lambda>p. False), video_at = (\<lambda>p. None), camera = None\<rparr> sample_args ()
      idle_update sample_detector
    = (Inl (AssertionError ''Path error''),
       \<lparr>vt_args = sample_args, deepsort = (), vdo = None, im_width = 0, im_height = 0,
        has_writer = False, grabbed = 0, calls = [], events = []\<rparr>)"
proof -
  let ?e = "\<lparr>isfile = (\<lambda>p. False), video_at = (\<lambda>p. None), camera = None\<rparr>"
  have c: "cam sample_args = -1" by (simp add: sample_args_def)
  have f: "\<not> isfile ?e (input_path sample_args) \<or> video_at ?e (input_path sample_args) = None"
    by simp
  from main_aborts_on_missing_input [OF c f, of "()" idle_update sample_detector]
  obtain msg self' where
    m: "main ?e sample_args () idle_update sample_detector = (Inl (AssertionError msg), self')"
    by blast
  have "main ?e sample_args () idle_update sample_detector
          = (Inl (AssertionError ''Path error''),
             \<lparr>vt_args = sample_args, deepsort = (), vdo = None, im_width = 0, im_height = 0,
              has_writer = False, grabbed = 0, calls = [], events = []\<rparr>)"
    by (simp add: main_def enter_def init_def Let_def sample_args_def)
  with m show ?thesis by simp
qed

section \<open>Properties of the frame loop\<close>

text \<open>
  With a non-zero \<open>frame_interval\<close> the loop does not raise. Frame by frame, in the order
  of the video, it grabs the frame and then, when the frame is tracked, invokes
  \<open>deepsort.update\<close> on it, before it grabs the next one; the tracker it ends with is the
  one these invocations produce from the tracker it started with.
\<close>

lemma run_loop_trace:
  "frame_interval (vt_args (self_of s)) \<noteq> 0 \<Longrightarrow>
   \<exists>s'. run_loop update detector fs s = (Inr (), s')
      \<and> grabbed (self_of s') = grabbed (self_of s) + length fs
      \<and> calls (self_of s') = calls (self_of s) @
           map (\<lambda>p. update_args detector (snd p))
             (filter (tracked_frame (frame_interval (vt_args (self_of s))) detector)
                (enumerate (idx_frame s) fs))
      \<and> events (self_of s') = events (self_of s) @
           concat (map (frame_events (frame_interval (vt_args (self_of s))) detector)
                     (enumerate (idx_frame s) fs))
      \<and> deepsort (self_of s') =
           fold (track_step update detector)
             (filter (tracked_frame (frame_interval (vt_args (self_of s))) detector)
                (enumerate (idx_frame s) fs))
             (deepsort (self_of s))"
proof (induction fs arbitrary: s)
  case Nil
  then show ?case by simp
next
  case (Cons img0 rest)
  let ?self1 = "(self_of s)\<lparr>vdo := Some rest, grabbed := grabbed (self_of s) + 1,
                             events := events (self_of s) @ [Grabbed img0]\<rparr>"
  let ?s1 = "s\<lparr>self_of := ?self1, videoFrames_of := videoFrames_of s @ [img0],
                 frame_height_of := shape0 img0, frame_width_of := shape1 img0\<rparr>"
  let ?fi = "frame_interval (vt_args (self_of s))"
  show ?case
  proof (cases "int (idx_frame s) mod ?fi = 0")
    case True
    obtain outputs self2 where it: "image_track update detector ?self1 img0 = (outputs, self2)"
      by (cases "image_track update detector ?self1 img0")
    let ?s3 = "?s1\<lparr>self_of := self2,
                   playerBoxes_of := fold (record_output (idx_frame ?s1)) outputs (playerBoxes_of ?s1),
                   idx_frame := idx_frame s + 1\<rparr>"
    have a2: "vt_args self2 = vt_args (self_of s)" and g2: "grabbed self2 = grabbed (self_of s) + 1"
      and c2: "calls self2 = calls (self_of s) @
                 (if filter (\<lambda>r. det_cls r = 0) (detector img0) = [] then []
                  else [update_args detector img0])"
      and e2: "events self2 = events (self_of s) @ [Grabbed img0] @
                 (if filter (\<lambda>r. det_cls r = 0) (detector img0) = [] then []
                  else [Updated (fst (update_args detector img0))
                          (snd (update_args detector img0)) img0])"
      and d2: "deepsort self2 =
                 (if filter (\<lambda>r. det_cls r = 0) (detector img0) = [] then deepsort (self_of s)
                  else snd (update (deepsort (self_of s)) (fst (update_args detector img0))
                              (snd (update_args detector img0)) img0))"
      using image_track_untouched [of update detector ?self1 img0]
        image_track_calls [of update detector ?self1 img0]
        image_track_events [of update detector ?self1 img0]
        image_track_deepsort [of update detector ?self1 img0] it by simp_all
    have step: "run_loop update detector (img0 # rest) s = run_loop update detector rest ?s3"
      using Cons.prems True it by (simp add: Let_def)
    have "frame_interval (vt_args (self_of ?s3)) \<noteq> 0" using Cons.prems a2 by simp
    from Cons.IH [OF this] obtain s' where
      r: "run_loop update detector rest ?s3 = (Inr (), s')"
      and g: "grabbed (self_of s') = grabbed (self_of ?s3) + length rest"
      and c: "calls (self_of s') = calls (self_of ?s3) @
           map (\<lambda>p. update_args detector (snd p))
             (filter (tracked_frame (frame_interval (vt_args (self_of ?s3))) detector)
                (enumerate (idx_frame ?s3) rest))"
      and e: "events (self_of s') = events (self_of ?s3) @
           concat (map (frame_events (frame_interval (vt_args (self_of ?s3))) detector)
                     (enumerate (idx_frame ?s3) rest))"
      and d: "deepsort (self_of s') =
           fold (track_step update detector)
             (filter (tracked_frame (frame_interval (vt_args (self_of ?s3))) detector)
                (enumerate (idx_frame ?s3) rest))
             (deepsort (self_of ?s3))"
      by blast
    show ?thesis
      unfolding step using r g c e d a2 g2 c2 e2 d2 True
      by (simp add: tracked_frame_pair frame_events_pair track_step_pair)
  next
    case False
    let ?s3 = "?s1\<lparr>idx_frame := idx_frame s + 1\<rparr>"
    have step: "run_loop update detector (img0 # rest) s = run_loop update detector rest ?s3"
      using Cons.prems False by (simp add: Let_def)
    have "frame_interval (vt_args (self_of ?s3)) \<noteq> 0" using Cons.prems by simp
    from Cons.IH [OF this] obtain s' where
      r: "run_loop update detector rest ?s3 = (Inr (), s')"
      and g: "grabbed (self_of s') = grabbed (self_of ?s3) + length rest"
      and c: "calls (self_of s') = calls (self_of ?s3) @
           map (\<lambda>p. update_args detector (snd p))
             (filter (tracked_frame (frame_interval (vt_args (self_of ?s3))) detector)
                (enumerate (idx_frame ?s3) rest))"
      and e: "events (self_of s') = events (self_of ?s3) @
           concat (map (frame_events (frame_interval (vt_args (self_of ?s3))) detector)
                     (enumerate (idx_frame ?s3) rest))"
      and d: "deepsort (self_of s') =
           fold (track_step update detector)
             (filter (tracked_frame (frame_interval (vt_args (self_of ?s3))) detector)
                (enumerate (idx_frame ?s3) rest))
             (deepsort (self_of ?s3))"
      by blast
    show ?thesis
      unfolding step using r g c e d False
      by (simp add: tracked_frame_pair frame_events_pair)
  qed
qed

text \<open>
  C2 as stated fails: with the default \<open>frame_interval = 1\<close> and two frames, of which the
  second shows no person, both frames are grabbed and \<open>deepsort.update\<close> is invoked for
  the first one only: a tracker that records its arguments has received one call, and the
  trace shows the second grab without an invocation after it.
\<close>

theorem run_update_once_per_frame_counterexample:
  "grabbed (snd (run recording_update sample_detector
                   (sample_self [] [sample_frame [1], sample_frame []]))) = 2
   \<and> deepsort (snd (run recording_update sample_detector
                      (sample_self [] [sample_frame [1], sample_frame []])))
       = [([(120, 140, 40, 80)], [9 / 10], sample_frame [1])]
   \<and> events (snd (run recording_update sample_detector
                    (sample_self [] [sample_frame [1], sample_frame []])))
       = [Grabbed (sample_frame [1]),
          Updated [(120, 140, 40, 80)] [9 / 10] (sample_frame [1]),
          Grabbed (sample_frame [])]"
  by (simp add: run_def image_track_def Let_def sample_defs transform_playerBoxes_to_list_def
      player_bbox_at_def xyxy_def)

text \<open>
  C2, amended. With a non-zero \<open>frame_interval\<close>, \<open>run\<close> returns after grabbing every frame
  of the video, and \<open>deepsort.update\<close> is invoked at most once per grabbed frame: exactly
  once, after the frame is grabbed and before the next frame is grabbed, for each frame
  whose index is a multiple of \<open>frame_interval\<close> and whose detector output has a row of
  class 0, and not at all for the other frames. The trace of \<open>run\<close> is, frame by frame in
  video order, the grab followed by that frame's invocation if it has one, and the
  tracker \<open>run\<close> ends with is the result of these invocations, applied in this order to
  the tracker it started with, on the boxes and confidences of the class-0 rows of each
  such frame.
\<close>

theorem run_tracks_frame_by_frame:
  assumes "frame_interval (vt_args self) \<noteq> 0" and "vdo self = Some fs"
  shows "\<exists>res self'. run update detector self = (Inr res, self')
           \<and> grabbed self' = grabbed self + length fs
           \<and> events self' = events self @
                concat (map (frame_events (frame_interval (vt_args self)) detector)
                          (enumerate 0 fs))
           \<and> deepsort self' =
                fold (track_step update detector)
                  (filter (tracked_frame (frame_interval (vt_args self)) detector) (enumerate 0 fs))
                  (deepsort self)
           \<and> calls self' = calls self @
                map (\<lambda>p. update_args detector (snd p))
                  (filter (tracked_frame (frame_interval (vt_args self)) detector) (enumerate 0 fs))
           \<and> length (calls self') \<le> length (calls self) + length fs"
proof -
  let ?s0 = "\<lparr>self_of = self, idx_frame = 0, videoFrames_of = [], playerBoxes_of = [],
              frame_width_of = 0, frame_height_of = 0\<rparr>"
  have "frame_interval (vt_args (self_of ?s0)) \<noteq> 0" using assms(1) by simp
  from run_loop_trace [OF this, of update detector fs] obtain s' where
    r: "run_loop update detector fs ?s0 = (Inr (), s')"
    and g: "grabbed (self_of s') = grabbed self + length fs"
    and c: "calls (self_of s') = calls self @
           map (\<lambda>p. update_args detector (snd p))
             (filter (tracked_frame (frame_interval (vt_args self)) detector) (enumerate 0 fs))"
    and e: "events (self_of s') = events self @
           concat (map (frame_events (frame_interval (vt_args self)) detector) (enumerate 0 fs))"
    and d: "deepsort (self_of s') =
           fold (track_step update detector)
             (filter (tracked_frame (frame_interval (vt_args self)) detector) (enumerate 0 fs))
             (deepsort self)"
    by auto
  have l: "length (filter (tracked_frame (frame_interval (vt_args self)) detector) (enumerate 0 fs))
             \<le> length fs"
    using length_filter_le [of _ "enumerate 0 fs"] by simp
  show ?thesis
    using r g c e d l assms(2)
    by (simp add: run_def Let_def transform_playerBoxes_to_list_eq)
qed

theorem run_tracks_frame_by_frame_witness:
  "grabbed (snd (run recording_update sample_detector
                   (sample_self [] [sample_frame [1], sample_frame [], sample_frame [2]]))) = 3
   \<and> events (snd (run recording_update sample_detector
                    (sample_self [] [sample_frame [1], sample_frame [], sample_frame [2]])))
       = [Grabbed (sample_frame [1]),
          Updated [(120, 140, 40, 80)] [9 / 10] (sample_frame [1]),
          Grabbed (sample_frame []),
          Grabbed (sample_frame [2]),
          Updated [(120, 140, 40, 80)] [9 / 10] (sample_frame [2])]
   \<and> deepsort (snd (run recording_update sample_detector
                      (sample_self [] [sample_frame [1], sample_frame [], sample_frame [2]])))
       = [([(120, 140, 40, 80)], [9 / 10], sample_frame [1]),
          ([(120, 140, 40, 80)], [9 / 10], sample_frame [2])]"
proof -
  let ?self = "sample_self [] [sample_frame [1], sample_frame [], sample_frame [2]]
                 :: (box list \<times> real list \<times> frame) list video_tracker"
  have a: "frame_interval (vt_args ?self) \<noteq> 0" by (simp add: sample_defs)
  have v: "vdo ?self = Some [sample_frame [1], sample_frame [], sample_frame [2]]"
    by (simp add: sample_defs)
  from run_tracks_frame_by_frame [OF a v, of recording_update sample_detector]
  show ?thesis
    by (auto simp: sample_defs tracked_frame_pair frame_events_pair track_step_pair
        update_args_def xyxy_def enumerate_eq_zip upt_rec)
qed

section \<open>Properties of the tracker core\<close>



















text \<open>One cycle computed stage by stage, for evaluating the tracker at a concrete input.\<close>

lemma deepsort_update_eval:
  assumes "predict_all eng (tracks trk) = ts1"
    and "assign eng ts1 b c f = (ms, uts, uds)"
    and "fold (apply_match cfg eng b) ms ts1 = ts2"
    and "fold (apply_miss cfg) uts ts2 = ts3"
    and "fold (spawn b) uds (trk\<lparr>tracks := ts3\<rparr>) = trk4"
    and "filter (\<lambda>t. status t \<noteq> Deleted) (tracks trk4) = ts5"
    and "emit ts5 = out"
    and "trk4\<lparr>tracks := ts5\<rparr> = trk5"
  shows "deepsort_update cfg eng trk b c f = (out, trk5)"
  using assms by (simp add: deepsort_update_def Let_def)







section \<open>A frame without detections of the target class\<close>

text \<open>One cycle of the tracker on no detections: the one live track is unmatched and ages by one frame.\<close>

lemma sample_step_empty:
  "deepsort_update sample_config sample_engine sample_tracker [] [] f
   = ([((75, 75, 125, 125), 1)],
      \<lparr>tracks = [mk_track 1 (100, 100, 50, 50) Confirmed 0 1], next_id = 2\<rparr>)"
proof (rule deepsort_update_eval)
  let ?c = "mk_track 1 (100, 100, 50, 50) Confirmed 3 0"
  let ?d = "mk_track 1 (100, 100, 50, 50) Confirmed 0 1"
  let ?u = "\<lparr>tracks = [?d], next_id = 2\<rparr>"
  show "predict_all sample_engine (tracks sample_tracker) = [?c]"
    by (simp add: predict_all_def sample_engine_def sample_tracker_def mk_track_def)
  show "assign sample_engine [?c] [] [] f = ([], [0], [])"
    by (simp add: sample_engine_def pair_in_order_def Let_def upt_rec)
  show "fold (apply_match sample_config sample_engine []) [] [?c] = [?c]"
    by simp
  show "fold (apply_miss sample_config) [0] [?c] = [?d]"
    by (simp add: apply_miss_def missed_def sample_config_def mk_track_def)
  show "fold (spawn []) [] (sample_tracker\<lparr>tracks := [?d]\<rparr>) = ?u"
    by (simp add: sample_tracker_def)
  show "filter (\<lambda>t. status t \<noteq> Deleted) (tracks ?u) = [?d]"
    by (simp add: mk_track_def)
  show "emit [?d] = [((75, 75, 125, 125), 1)]"
    by (simp add: emit_def mk_track_def)
  show "?u\<lparr>tracks := [?d]\<rparr> = ?u"
    by simp
qed

text \<open>
  C6 as stated fails in its second half: on a frame without detections of class 0,
  \<open>image_track\<close> returns the empty output and leaves the tracker as it is, so the live
  track keeps time-since-update 0, while a cycle that treats it as unmatched raises it to 1.
\<close>

theorem image_track_no_detections_counterexample:
  "image_track (deepsort_update sample_config sample_engine) sample_detector
      (sample_self sample_tracker []) (sample_frame [])
     = ([], sample_self sample_tracker [])
   \<and> map time_since_update (tracks (deepsort (sample_self sample_tracker []))) = [0]
   \<and> map time_since_update
       (tracks (snd (deepsort_update sample_config sample_engine sample_tracker [] []
                       (sample_frame []))))
     = [1]"
proof -
  have a: "image_track (deepsort_update sample_config sample_engine) sample_detector
             (sample_self sample_tracker []) (sample_frame [])
           = ([], sample_self sample_tracker [])"
    by (simp add: image_track_def sample_detector_def sample_frame_def)
  have b: "map time_since_update (tracks (deepsort (sample_self sample_tracker []))) = [0]"
    by (simp add: sample_self_def sample_tracker_def mk_track_def)
  have c: "map time_since_update
             (tracks (snd (deepsort_update sample_config sample_engine sample_tracker [] []
                             (sample_frame []))))
           = [1]"
    by (simp add: sample_step_empty mk_track_def)
  from a b c show ?thesis by (intro conjI)
qed

text \<open>
  C6, amended. For a processed frame with no detection of class 0, the output of
  \<open>image_track\<close> is the empty sequence of rows and the tracker object is left exactly as
  it was: \<open>deepsort.update\<close> is not invoked, so no live track is predicted, aged or
  marked unmatched for that frame.
\<close>

theorem image_track_no_detections:
  assumes "filter (\<lambda>r. det_cls r = 0) (detector im0) = []"
  shows "image_track update detector self im0 = ([], self)"
  using assms by (simp add: image_track_def Let_def)

theorem image_track_no_detections_witness:
  "image_track idle_update (\<lambda>im0. [sample_car]) (sample_self () []) (sample_frame [1])
     = ([], sample_self () [])"
proof -
  have "filter (\<lambda>r. det_cls r = 0) ((\<lambda>im0. [sample_car]) (sample_frame [1])) = []"
    by (simp add: sample_car_def)
  then show ?thesis by (rule image_track_no_detections)
qed

end
